theory Spec2Isabelle
  imports Complex_Main
begin

section \<open>The canvas component of ShapeShifter: data\<close>

text \<open>
  The development embeds \<^verbatim>\<open>src/app/canvas/canvas.component.ts\<close>. The component talks
  to collaborators whose code is not part of the sources at hand (\<^verbatim>\<open>Path\<close>, its
  mutator, \<^verbatim>\<open>Matrix\<close>, \<^verbatim>\<open>MathUtil\<close>, the layer classes and the services). Values
  built by those collaborators are kept as terms that record which operation was asked
  for, in which order and with which arguments; what a collaborator computes from a
  value (a projection, a hit test, a transformed point) is a parameter.

  JavaScript numbers that are array indices are \<^typ>\<open>nat\<close>; coordinates, distances and
  curve parameters are \<^typ>\<open>real\<close> (the finite doubles the geometry produces; the
  comparisons of the source are the comparisons of the reals they denote).
\<close>

subsection \<open>Layers and their transforms\<close>

text \<open>
  A matrix is the record of how it was obtained: the three factory methods used in
  \<^verbatim>\<open>getTransformsForLayer\<close>, \<^verbatim>\<open>Matrix.flatten(...ms)\<close>,
  \<^verbatim>\<open>MathUtil.flattenTransforms(ms)\<close> and \<^verbatim>\<open>m.invert()\<close>.
\<close>

datatype matrix =
    FromTranslation real real
  | FromRotation real
  | FromScaling real real
  | MatrixFlatten "matrix list"
  | FlattenTransforms "matrix list"
  | Invert matrix

text \<open>The fields of a \<^verbatim>\<open>GroupLayer\<close> that the component reads.\<close>

record group_attrs =
  pivotX :: real
  pivotY :: real
  translateX :: real
  translateY :: real
  rotation :: real
  scaleX :: real
  scaleY :: real

text \<open>
  The class of a layer, as far as \<^verbatim>\<open>instanceof GroupLayer\<close> can tell, with the
  group's fields where it is one.
\<close>

datatype layer_class = VectorLayerClass | GroupLayerClass group_attrs | PathLayerClass | ClipPathLayerClass

text \<open>
  A layer: its \<^verbatim>\<open>id\<close>, its class and its \<^verbatim>\<open>children\<close>, which is
  \<^verbatim>\<open>undefined\<close> (\<open>None\<close>) for a layer that has none. An empty array is truthy in
  JavaScript, so \<open>Some []\<close> enters the loop of \<^verbatim>\<open>getTransformsFn\<close> and leaves it at once.
\<close>

datatype layer = Layer (layer_id: string) (layer_class: layer_class) (children: "layer list option")

text \<open>
  The callback of \<^verbatim>\<open>_.flatMap(parents, ...)\<close> (lines 1204-1215): nothing for a layer
  that is not a group, the five matrices for a group.
\<close>

fun layerTransforms :: "layer \<Rightarrow> matrix list" where
  "layerTransforms (Layer i (GroupLayerClass g) cs) =
     [FromTranslation (pivotX g) (pivotY g),
      FromTranslation (translateX g) (translateY g),
      FromRotation (rotation g),
      FromScaling (scaleX g) (scaleY g),
      FromTranslation (- pivotX g) (- pivotY g)]"
| "layerTransforms (Layer i c cs) = []"

text \<open>
  \<^verbatim>\<open>getTransformsFn(parents, current)\<close> (lines 1202-1226), with the \<^verbatim>\<open>for\<close> loop
  over the children as \<open>getTransformsLoop\<close>: the first child whose search returns an
  array (arrays are truthy, also the empty one) ends the loop. \<open>None\<close> is
  \<^verbatim>\<open>undefined\<close>.
\<close>

fun getTransformsFn :: "string \<Rightarrow> layer list \<Rightarrow> layer \<Rightarrow> matrix list option"
  and getTransformsLoop :: "string \<Rightarrow> layer list \<Rightarrow> layer list \<Rightarrow> matrix list option" where
  "getTransformsFn layerId parents (Layer i c ch) =
     (if i = layerId then Some (concat (map layerTransforms parents))
      else (case ch of
              None \<Rightarrow> None
            | Some cs \<Rightarrow> getTransformsLoop layerId (parents @ [Layer i c ch]) cs))"
| "getTransformsLoop layerId parents [] = None"
| "getTransformsLoop layerId parents (child # rest) =
     (case getTransformsFn layerId parents child of
        Some transforms \<Rightarrow> Some transforms
      | None \<Rightarrow> getTransformsLoop layerId parents rest)"

definition getTransformsForLayer :: "layer \<Rightarrow> string \<Rightarrow> matrix list option" where
  "getTransformsForLayer vectorLayer layerId = getTransformsFn layerId [] vectorLayer"

text \<open>The ids that occur in a layer tree, and the chains that lead down into it.\<close>

fun layerIds :: "layer \<Rightarrow> string set"
  and layerIdsList :: "layer list \<Rightarrow> string set" where
  "layerIds (Layer i c ch) = insert i (case ch of None \<Rightarrow> {} | Some cs \<Rightarrow> layerIdsList cs)"
| "layerIdsList [] = {}"
| "layerIdsList (l # ls) = layerIds l \<union> layerIdsList ls"

text \<open>
  \<open>ancestorChain root ancestors target\<close>: \<open>target\<close> is a layer of the tree under
  \<open>root\<close>, and \<open>ancestors\<close> are the layers above it, from \<open>root\<close> down to its parent.
\<close>

inductive ancestorChain :: "layer \<Rightarrow> layer list \<Rightarrow> layer \<Rightarrow> bool" where
  chainHere: "ancestorChain l [] l"
| chainBelow: "children l = Some cs \<Longrightarrow> child \<in> set cs \<Longrightarrow> ancestorChain child ancestors target
     \<Longrightarrow> ancestorChain l (l # ancestors) target"


subsection \<open>Paths, mutators, projections and hit tests\<close>

text \<open>
  The operations of the path mutator that the component asks for. The mutator's own code
  is not at hand, so an operation is recorded with its arguments, in the order of the
  calls. A failure inside the mutator is not part of this model.
\<close>

datatype mutator_op =
    SplitCommand nat nat real
  | SplitCommandInHalf nat nat
  | UnsplitCommand nat nat
  | ReverseSubPath nat
  | ShiftSubPathForward nat
  | ShiftSubPathBack nat
  | SplitFilledSubPath nat nat nat
  | SplitStrokedSubPath nat nat

text \<open>
  A path is either given (\<open>PathData n\<close>, an opaque value) or the result of
  \<^verbatim>\<open>p.mutate()...build()\<close>: the source path and the operations recorded on the mutator
  when \<^verbatim>\<open>build()\<close> was called.
\<close>

datatype path = PathData nat | Built path "mutator_op list"

record path_mutator =
  source :: path
  ops :: "mutator_op list"

definition mutate :: "path \<Rightarrow> path_mutator" where
  "mutate p = \<lparr>source = p, ops = []\<rparr>"

definition record_op :: "mutator_op \<Rightarrow> path_mutator \<Rightarrow> path_mutator" where
  "record_op x m = m\<lparr>ops := ops m @ [x]\<rparr>"

definition build :: "path_mutator \<Rightarrow> path" where
  "build m = Built (source m) (ops m)"

text \<open>
  The command index an operation of the mutator is aimed at, for the operations that
  take one (for \<^verbatim>\<open>splitFilledSubPath\<close>, the first of its two).
\<close>

fun commandIndexOf :: "mutator_op \<Rightarrow> nat option" where
  "commandIndexOf (SplitCommand s i t) = Some i"
| "commandIndexOf (SplitCommandInHalf s i) = Some i"
| "commandIndexOf (UnsplitCommand s i) = Some i"
| "commandIndexOf (SplitFilledSubPath s i j) = Some i"
| "commandIndexOf (SplitStrokedSubPath s i) = Some i"
| "commandIndexOf (ReverseSubPath s) = None"
| "commandIndexOf (ShiftSubPathForward s) = None"
| "commandIndexOf (ShiftSubPathBack s) = None"

type_synonym point = "real \<times> real"

text \<open>A projection: the projected point, its distance \<open>d\<close> and its parameter \<open>t\<close>.\<close>

record projection =
  proj_x :: real
  proj_y :: real
  proj_d :: real
  proj_t :: real

record command_index =
  subIdx :: nat
  cmdIdx :: nat

record projection_onto_path = command_index +
  projection :: projection

text \<open>
  \<^verbatim>\<open>HitTestOpts\<close> (lines 1380-1384): three optional booleans. A field counts as set
  when it is truthy.
\<close>

record hit_test_opts =
  noPoints :: "bool option"
  noSegments :: "bool option"
  noShapes :: "bool option"

definition truthy :: "bool option \<Rightarrow> bool" where
  "truthy b = (b = Some True)"

text \<open>
  The object that \<^verbatim>\<open>performHitTest\<close> passes to \<^verbatim>\<open>Path.hitTest\<close>. A range function
  that was not assigned is \<^verbatim>\<open>undefined\<close> (\<open>None\<close>). The endpoint function reads one
  thing of the command it is given, \<^verbatim>\<open>cmd.isSplit()\<close>, which stands for the command here.
\<close>

record hit_test_args =
  isPointInRangeFn :: "(real \<Rightarrow> bool \<Rightarrow> bool) option"
  isSegmentInRangeFn :: "(real \<Rightarrow> bool) option"
  findShapesInRange :: bool

record hit_result =
  isHit :: bool
  isEndPointHit :: bool
  isSegmentHit :: bool
  endPointHits :: "command_index list"
  segmentHits :: "projection_onto_path list"
  shapeHits :: "command_index list"

text \<open>What the component reads of a \<^verbatim>\<open>PathLayer\<close>.\<close>

record path_layer =
  pathData :: path
  isFilled :: bool
  isStroked :: bool
  strokeWidth :: real

text \<open>
  The errors: \<open>TypeError\<close> is what JavaScript raises on a property read or a call on
  \<^verbatim>\<open>undefined\<close>; the others are the error kinds of the specification of the engine.
\<close>

datatype error =
    TypeError
  | IndexOutOfRangeError
  | InvalidParameterError
  | NotSplitError
  | NotClosedError
  | NotMorphableError

text \<open>
  What the collaborators compute, as parameters: \<^verbatim>\<open>MathUtil.transformPoint\<close>,
  \<^verbatim>\<open>Path.project\<close> (\<open>None\<close> is a falsy result), \<^verbatim>\<open>Path.hitTest\<close>,
  \<^verbatim>\<open>MathUtil.distance\<close>, the product \<^verbatim>\<open>a * b\<close> of two numbers as JavaScript rounds it
  (the one product the handlers compute, a radius by a factor such as \<^verbatim>\<open>0.8\<close>, is not
  exact in doubles), and the two reads of the path's structure. A command is
  read for its \<^verbatim>\<open>isSplit()\<close> only and stands as that boolean:
  \<open>getCommand p s c\<close> is \<^verbatim>\<open>p.getSubPaths()[s].getCommands()[c]\<close>, which raises when
  the subpath is \<^verbatim>\<open>undefined\<close> and is \<^verbatim>\<open>undefined\<close> (\<open>Inr None\<close>) when the
  command is; \<open>getSubPath p s\<close> is \<^verbatim>\<open>p.getSubPaths()[s]\<close>, a subpath standing as its
  \<^verbatim>\<open>isSplit()\<close>.
\<close>

record collaborators =
  transformPoint :: "point \<Rightarrow> matrix \<Rightarrow> point"
  project :: "path \<Rightarrow> point \<Rightarrow> projection_onto_path option"
  hitTest :: "path \<Rightarrow> point \<Rightarrow> hit_test_args \<Rightarrow> hit_result"
  getCommand :: "path \<Rightarrow> nat \<Rightarrow> nat \<Rightarrow> error + bool option"
  getSubPath :: "path \<Rightarrow> nat \<Rightarrow> bool option"
  distance :: "point \<Rightarrow> point \<Rightarrow> real"
  multiply :: "real \<Rightarrow> real \<Rightarrow> real"

datatype canvas_type = Start | Preview | End

text \<open>
  The modes the component distinguishes; every other member of \<^verbatim>\<open>AppMode\<close> takes the
  same branches as \<open>OtherAppMode\<close>.
\<close>

datatype app_mode = SelectPoints | AddPoints | SplitSubPaths | OtherAppMode

text \<open>
  What the getters of the component return while one event is handled: the vector layer
  and the active path id of the state service, the app mode, the path layers by id
  (\<^verbatim>\<open>vectorLayer.findLayer(id)\<close>; \<^verbatim>\<open>stateService.getActivePathLayer\<close> is the entry
  of the active path id, the object whose \<^verbatim>\<open>pathData\<close> line 1003 assigns so that the
  projection of line 1005 sees it), and \<^verbatim>\<open>largePointRadius\<close>, which the component
  derives from its CSS sizes.
\<close>

record services =
  vectorLayer :: "layer option"
  activePathId :: "string option"
  appMode :: app_mode
  pathLayers :: "string \<Rightarrow> path_layer option"
  largePointRadius :: real

definition MIN_SNAP_THRESHOLD :: real where
  "MIN_SNAP_THRESHOLD = 1.5"

definition DRAG_TRIGGER_TOUCH_SLOP :: real where
  "DRAG_TRIGGER_TOUCH_SLOP = 1"

definition SPLIT_POINT_RADIUS_FACTOR :: real where
  "SPLIT_POINT_RADIUS_FACTOR = 0.8"

text \<open>An id is truthy when it is a string that is not empty.\<close>

definition truthyId :: "string option \<Rightarrow> bool" where
  "truthyId i = (case i of None \<Rightarrow> False | Some s \<Rightarrow> s \<noteq> [])"

text \<open>The getters \<^verbatim>\<open>activePathLayer\<close> and \<^verbatim>\<open>activePath\<close> (lines 277-287).\<close>

definition getActivePathLayer :: "services \<Rightarrow> path_layer option" where
  "getActivePathLayer sv = (case activePathId sv of None \<Rightarrow> None | Some i \<Rightarrow> pathLayers sv i)"

definition activePathLayer :: "services \<Rightarrow> path_layer option" where
  "activePathLayer sv = (if truthyId (activePathId sv) then getActivePathLayer sv else None)"

definition activePath :: "services \<Rightarrow> error + path option" where
  "activePath sv =
     (if truthyId (activePathId sv)
      then (case getActivePathLayer sv of None \<Rightarrow> Inl TypeError | Some l \<Rightarrow> Inr (Some (pathData l)))
      else Inr None)"

text \<open>
  The getter \<^verbatim>\<open>transformsForActiveLayer\<close> (lines 315-317). Without a vector layer the
  read of \<^verbatim>\<open>current.id\<close> raises; an \<^verbatim>\<open>undefined\<close> id is the id of no layer.
\<close>

definition transformsForActiveLayer :: "services \<Rightarrow> error + matrix list option" where
  "transformsForActiveLayer sv =
     (case vectorLayer sv of
        None \<Rightarrow> Inl TypeError
      | Some vl \<Rightarrow> (case activePathId sv of
                     None \<Rightarrow> Inr None
                   | Some i \<Rightarrow> Inr (getTransformsForLayer vl i)))"

subsection \<open>Hit testing and projection\<close>

text \<open>
  Lines 1135-1148 of \<^verbatim>\<open>performHitTest\<close>: the object passed to \<^verbatim>\<open>hitTest\<close>, from
  the options, the active path layer and \<^verbatim>\<open>largePointRadius\<close>. Halving a double is
  exact; the product of the radius and the factor is the collaborators' \<open>multiply\<close>.
\<close>

definition hitTestArgs ::
  "collaborators \<Rightarrow> hit_test_opts \<Rightarrow> path_layer \<Rightarrow> real \<Rightarrow> hit_test_args" where
  "hitTestArgs ext opts layer radius =
     \<lparr>isPointInRangeFn =
        (if \<not> truthy (noPoints opts)
         then Some (\<lambda>distance cmdIsSplit.
                distance \<le> multiply ext radius
                             (if cmdIsSplit then SPLIT_POINT_RADIUS_FACTOR else 1))
         else None),
      isSegmentInRangeFn =
        (if \<not> truthy (noSegments opts)
         then Some (\<lambda>distance. distance \<le> strokeWidth layer / 2)
         else None),
      findShapesInRange = (isFilled layer \<and> \<not> truthy (noShapes opts))\<rparr>"

text \<open>
  \<^verbatim>\<open>performHitTest(mousePoint, opts = {})\<close> (lines 1131-1154). \<open>None\<close> for the options
  is the call without them (or with \<^verbatim>\<open>undefined\<close>), which takes the default \<^verbatim>\<open>{}\<close>.
  \<^verbatim>\<open>.reverse()\<close> on an \<^verbatim>\<open>undefined\<close> transform list raises, and so do
  \<^verbatim>\<open>.isFilled()\<close> and \<^verbatim>\<open>.hitTest\<close> on a missing layer or path.
\<close>

definition performHitTest ::
  "collaborators \<Rightarrow> services \<Rightarrow> point \<Rightarrow> hit_test_opts option \<Rightarrow> error + hit_result" where
  "performHitTest ext sv mousePoint optsArg =
     (let opts = (case optsArg of
                    None \<Rightarrow> \<lparr>noPoints = None, noSegments = None, noShapes = None\<rparr>
                  | Some given \<Rightarrow> given)
      in case transformsForActiveLayer sv of
           Inl e \<Rightarrow> Inl e
         | Inr None \<Rightarrow> Inl TypeError
         | Inr (Some ts) \<Rightarrow>
             (let transformMatrix = Invert (MatrixFlatten (rev ts));
                  transformedMousePoint = transformPoint ext mousePoint transformMatrix
              in case activePathLayer sv of
                   None \<Rightarrow> Inl TypeError
                 | Some layer \<Rightarrow>
                     (case activePath sv of
                        Inl e \<Rightarrow> Inl e
                      | Inr None \<Rightarrow> Inl TypeError
                      | Inr (Some p) \<Rightarrow>
                          Inr (hitTest ext p transformedMousePoint
                                 (hitTestArgs ext opts layer (largePointRadius sv))))))"

text \<open>
  \<^verbatim>\<open>calculateProjectionOntoPath(vectorLayer, pathId, mousePoint)\<close> (lines 1311-1335).
  \<open>Inr None\<close> is the result \<^verbatim>\<open>undefined\<close>. The two arguments \<^verbatim>\<open>vectorLayer\<close> and
  \<^verbatim>\<open>pathId\<close> are at every call the getters \<^verbatim>\<open>this.vectorLayer\<close> and
  \<^verbatim>\<open>this.activePathId\<close>; \<^verbatim>\<open>findLayer\<close> finds no layer for an \<^verbatim>\<open>undefined\<close> id.
\<close>

definition calculateProjectionOntoPath ::
  "collaborators \<Rightarrow> services \<Rightarrow> point \<Rightarrow> error + projection_onto_path option" where
  "calculateProjectionOntoPath ext sv mousePoint =
     (case vectorLayer sv of
        None \<Rightarrow> Inl TypeError
      | Some vl \<Rightarrow>
          (case activePathId sv of
             None \<Rightarrow> Inr None
           | Some pathId \<Rightarrow>
               (case pathLayers sv pathId of
                  None \<Rightarrow> Inr None
                | Some pathLayer \<Rightarrow>
                    (case getTransformsForLayer vl pathId of
                       None \<Rightarrow> Inl TypeError
                     | Some ts \<Rightarrow>
                         (let transforms = rev ts;
                              transformedMousePoint =
                                transformPoint ext mousePoint (Invert (FlattenTransforms transforms))
                          in Inr (project ext (pathData pathLayer) transformedMousePoint))))))"

text \<open>
  \<^verbatim>\<open>performSubPathHitTest(vectorLayer, pathId, mousePoint)\<close> (lines 1230-1261), which
  no live code calls. \<open>Inr None\<close> is \<^verbatim>\<open>undefined\<close>. \<^verbatim>\<open>_.last\<close> of an empty array is
  \<^verbatim>\<open>undefined\<close>, and reading \<^verbatim>\<open>.subIdx\<close> of it raises.
\<close>

definition lastOf :: "'a list \<Rightarrow> 'a option" where
  "lastOf xs = (case xs of [] \<Rightarrow> None | _ \<Rightarrow> Some (last xs))"



section \<open>The component: state and event handlers\<close>

subsection \<open>State, calls on the services, outcomes\<close>

text \<open>The class \<^verbatim>\<open>PointDragger\<close> (lines 1340-1378).\<close>

record point_dragger =
  isDragTriggered :: bool
  isMouseDown :: bool
  mouseDown :: point
  selectedCommandIndex :: command_index
  selectedPointSplit :: bool

definition newPointDragger :: "point \<Rightarrow> command_index \<Rightarrow> bool \<Rightarrow> point_dragger" where
  "newPointDragger p i split =
     \<lparr>isDragTriggered = False, isMouseDown = True, mouseDown = p,
      selectedCommandIndex = i, selectedPointSplit = split\<rparr>"

definition draggerOnMouseMove :: "collaborators \<Rightarrow> point \<Rightarrow> point_dragger \<Rightarrow> point_dragger" where
  "draggerOnMouseMove ext mouseMove d =
     (if DRAG_TRIGGER_TOUCH_SLOP < distance ext (mouseDown d) mouseMove
      then d\<lparr>isDragTriggered := True\<rparr> else d)"

definition draggerOnMouseUp :: "point_dragger \<Rightarrow> point_dragger" where
  "draggerOnMouseUp d = d\<lparr>isMouseDown := False\<rparr>"

text \<open>The fields of the component that the event handlers read and write.\<close>

record component =
  canvasType :: canvas_type
  currentHoverPreviewPath :: "path option"
  pointDragger :: "point_dragger option"
  shouldPerformActionOnMouseUp :: bool
  lastKnownMouseLocation :: "point option"
  initialFilledSubPathProjOntoPath :: "projection_onto_path option"

definition initialComponent :: "canvas_type \<Rightarrow> component" where
  "initialComponent ct =
     \<lparr>canvasType = ct, currentHoverPreviewPath = None, pointDragger = None,
      shouldPerformActionOnMouseUp = False, lastKnownMouseLocation = None,
      initialFilledSubPathProjOntoPath = None\<rparr>"

datatype hover_type =
  HoverSplit | HoverUnsplit | HoverReverse | HoverShiftForward | HoverShiftBack
  | HoverCommand | HoverSubPath

record hover =
  hover_type :: hover_type
  hover_source :: canvas_type
  hover_index :: command_index

datatype selection_type = SelectionSubPath | SelectionCommand

record selection =
  selection_type :: selection_type
  selection_source :: canvas_type
  selection_subIdx :: nat
  selection_cmdIdx :: "nat option"

text \<open>
  The calls a handler makes on its collaborators, in the order it makes them:
  the rulers, the hover and selection services, \<^verbatim>\<open>path.mutate()\<close>, the assignment
  \<^verbatim>\<open>activeLayer.pathData = p\<close>, \<^verbatim>\<open>stateService.updateActivePath(canvasType, p)\<close>,
  \<^verbatim>\<open>this.draw()\<close> and \<^verbatim>\<open>this.drawOverlays()\<close>. Drawing is rendering and is kept as
  the call alone.
\<close>

datatype effect =
    ShowRuler
  | HideMouse
  | HoverReset
  | HoverSetHover hover
  | SelectionReset
  | SelectionToggle selection "bool option"
  | Mutate path
  | SetPathData path
  | UpdateActivePath canvas_type path
  | Draw
  | DrawOverlays

text \<open>
  What a handler leaves behind: the component, the calls it made, and the error it
  raised, if any. A handler that raises keeps the assignments made before the raise.
\<close>

record handler_result =
  after :: component
  effects :: "effect list"
  thrown :: "error option"

definition finish :: "component \<Rightarrow> effect list \<Rightarrow> handler_result" where
  "finish c es = \<lparr>after = c, effects = es, thrown = None\<rparr>"

definition throw :: "component \<Rightarrow> effect list \<Rightarrow> error \<Rightarrow> handler_result" where
  "throw c es e = \<lparr>after = c, effects = es, thrown = Some e\<rparr>"

text \<open>
  A mouse event, as the handlers read it: the point that \<^verbatim>\<open>mouseEventToPoint\<close> makes
  of it (viewport coordinates, from the page coordinates and the CSS scale) and the two
  modifier keys.
\<close>

record mouse_event =
  mousePoint :: point
  shiftKey :: bool
  metaKey :: bool

definition shouldProcessMouseEvents :: "component \<Rightarrow> services \<Rightarrow> bool" where
  "shouldProcessMouseEvents c sv = (canvasType c \<noteq> Preview \<and> truthyId (activePathId sv))"

definition shouldDrawLayers :: "services \<Rightarrow> bool" where
  "shouldDrawLayers sv = (vectorLayer sv \<noteq> None \<and> truthyId (activePathId sv))"

subsection \<open>Mouse down\<close>

text \<open>The \<^verbatim>\<open>switch\<close> of lines 852-858; \<open>None\<close> is the variable left unassigned.\<close>

definition mouseDownHitTestOpts :: "app_mode \<Rightarrow> hit_test_opts option" where
  "mouseDownHitTestOpts mode =
     (if mode = AddPoints \<or> mode = SplitSubPaths
      then Some \<lparr>noPoints = Some True, noSegments = None, noShapes = Some True\<rparr>
      else None)"

text \<open>\<^verbatim>\<open>onMouseDown\<close> (lines 843-934).\<close>

definition onMouseDown :: "collaborators \<Rightarrow> services \<Rightarrow> mouse_event \<Rightarrow> component \<Rightarrow> handler_result" where
  "onMouseDown ext sv ev c =
     (if \<not> shouldProcessMouseEvents c sv then finish c [ShowRuler]
      else
        let mouseDown = mousePoint ev;
            c1 = c\<lparr>lastKnownMouseLocation := Some mouseDown\<rparr>
        in case performHitTest ext sv mouseDown (mouseDownHitTestOpts (appMode sv)) of
             Inl e \<Rightarrow> throw c1 [ShowRuler] e
           | Inr hitResult \<Rightarrow>
               if appMode sv = SelectPoints then
                 (if isEndPointHit hitResult then
                    (case lastOf (endPointHits hitResult) of
                       None \<Rightarrow> throw c1 [ShowRuler] TypeError
                     | Some hitPointIndex \<Rightarrow>
                         (case activePath sv of
                            Inl e \<Rightarrow> throw c1 [ShowRuler] e
                          | Inr None \<Rightarrow> throw c1 [ShowRuler] TypeError
                          | Inr (Some p) \<Rightarrow>
                              (case getCommand ext p (subIdx hitPointIndex) (cmdIdx hitPointIndex) of
                                 Inl e \<Rightarrow> throw c1 [ShowRuler] e
                               | Inr None \<Rightarrow> throw c1 [ShowRuler] TypeError
                               | Inr (Some split) \<Rightarrow>
                                   finish
                                     (c1\<lparr>pointDragger :=
                                           Some (newPointDragger mouseDown hitPointIndex split)\<rparr>)
                                     [ShowRuler])))
                  else finish c1 [ShowRuler])
               else if appMode sv = AddPoints \<or> appMode sv = SplitSubPaths then
                 (if isSegmentHit hitResult then
                    (case lastOf (segmentHits hitResult) of
                       None \<Rightarrow> throw c1 [ShowRuler] TypeError
                     | Some h \<Rightarrow>
                         finish
                           (c1\<lparr>shouldPerformActionOnMouseUp :=
                                 proj_d (projection h) < MIN_SNAP_THRESHOLD\<rparr>)
                           [ShowRuler, Draw])
                  else finish c1 [ShowRuler, Draw])
               else finish c1 [ShowRuler])"

subsection \<open>Mouse move\<close>

text \<open>
  \<^verbatim>\<open>_.findLastIndex(xs, pred)\<close>: the predicate is called from the last element
  backwards until it holds; \<open>None\<close> is the result \<open>-1\<close>. The list given to
  \<open>findLastIndexFrom\<close> is the array from its end.
\<close>

fun findLastIndexFrom :: "('a \<Rightarrow> error + bool) \<Rightarrow> 'a list \<Rightarrow> error + nat option" where
  "findLastIndexFrom pred [] = Inr None"
| "findLastIndexFrom pred (x # before) =
     (case pred x of
        Inl e \<Rightarrow> Inl e
      | Inr True \<Rightarrow> Inr (Some (length before))
      | Inr False \<Rightarrow> findLastIndexFrom pred before)"

definition findLastIndex :: "('a \<Rightarrow> error + bool) \<Rightarrow> 'a list \<Rightarrow> error + nat option" where
  "findLastIndex pred xs = findLastIndexFrom pred (rev xs)"

text \<open>A \<^verbatim>\<open>map\<close> whose callback may raise: the first raise ends it.\<close>

fun mapM :: "('a \<Rightarrow> error + 'b) \<Rightarrow> 'a list \<Rightarrow> error + 'b list" where
  "mapM f [] = Inr []"
| "mapM f (x # xs) =
     (case f x of
        Inl e \<Rightarrow> Inl e
      | Inr y \<Rightarrow> (case mapM f xs of Inl e \<Rightarrow> Inl e | Inr ys \<Rightarrow> Inr (y # ys)))"

definition isSplitOf :: "bool option \<Rightarrow> error + bool" where
  "isSplitOf v = (case v of None \<Rightarrow> Inl TypeError | Some b \<Rightarrow> Inr b)"

text \<open>
  \<^verbatim>\<open>processHitResult\<close> (lines 1156-1192), on the active path \<open>p\<close>: the calls on the
  hover service, or the error raised.
\<close>

definition processHitResult ::
  "collaborators \<Rightarrow> path \<Rightarrow> canvas_type \<Rightarrow> hit_result \<Rightarrow> error + effect list" where
  "processHitResult ext p ct hitResult =
     (if isHit hitResult then
        (if endPointHits hitResult \<noteq> [] then
           (case mapM (\<lambda>index. case getCommand ext p (subIdx index) (cmdIdx index) of
                                  Inl e \<Rightarrow> Inl e
                                | Inr cmd \<Rightarrow> Inr (index, cmd))
                      (endPointHits hitResult) of
              Inl e \<Rightarrow> Inl e
            | Inr endPointInfos \<Rightarrow>
                (case findLastIndex (\<lambda>cmdInfo. isSplitOf (snd cmdInfo)) endPointInfos of
                   Inl e \<Rightarrow> Inl e
                 | Inr lastSplitIndex \<Rightarrow>
                     (let hoverIndex =
                            fst (endPointInfos !
                                   (case lastSplitIndex of
                                      None \<Rightarrow> length endPointInfos - 1
                                    | Some i \<Rightarrow> i))
                      in Inr [HoverSetHover
                                \<lparr>hover_type = HoverCommand, hover_source = ct,
                                 hover_index = hoverIndex\<rparr>])))
         else if shapeHits hitResult \<noteq> [] then
           (let subPathInfos =
                  map (\<lambda>index. (index, getSubPath ext p (subIdx index))) (shapeHits hitResult)
            in case findLastIndex (\<lambda>subPathInfo. isSplitOf (snd subPathInfo)) subPathInfos of
                 Inl e \<Rightarrow> Inl e
               | Inr lastSplitIndex \<Rightarrow>
                   (let hoverIndex =
                          fst (subPathInfos !
                                 (case lastSplitIndex of
                                    None \<Rightarrow> length subPathInfos - 1
                                  | Some i \<Rightarrow> i))
                    in Inr [HoverSetHover
                              \<lparr>hover_type = HoverSubPath, hover_source = ct,
                               hover_index = hoverIndex\<rparr>]))
         else Inr [])
      else Inr [HoverReset])"

text \<open>\<^verbatim>\<open>onMouseMove\<close> (lines 937-964).\<close>

definition onMouseMove :: "collaborators \<Rightarrow> services \<Rightarrow> mouse_event \<Rightarrow> component \<Rightarrow> handler_result" where
  "onMouseMove ext sv ev c =
     (if \<not> shouldProcessMouseEvents c sv then finish c [ShowRuler]
      else
        let mouseMove = mousePoint ev;
            c1 = c\<lparr>lastKnownMouseLocation := Some mouseMove\<rparr>;
            c2 = (if appMode sv = SelectPoints
                  then c1\<lparr>pointDragger :=
                            map_option (draggerOnMouseMove ext mouseMove) (pointDragger c1)\<rparr>
                  else c1);
            isDraggingSplitPoint =
              (appMode sv = SelectPoints \<and>
               (case pointDragger c2 of
                  None \<Rightarrow> False
                | Some d \<Rightarrow> selectedPointSplit d \<and> isDragTriggered d))
        in if isDraggingSplitPoint then finish c2 [ShowRuler, Draw]
           else
             (case performHitTest ext sv mouseMove None of
                Inl e \<Rightarrow> throw c2 [ShowRuler] e
              | Inr hitResult \<Rightarrow>
                  (case activePath sv of
                     Inl e \<Rightarrow> throw c2 [ShowRuler] e
                   | Inr None \<Rightarrow> throw c2 [ShowRuler] TypeError
                   | Inr (Some p) \<Rightarrow>
                       (case processHitResult ext p (canvasType c2) hitResult of
                          Inl e \<Rightarrow> throw c2 [ShowRuler] e
                        | Inr es \<Rightarrow> finish c2 ([ShowRuler] @ es @ [Draw])))))"


subsection \<open>Mouse up\<close>

text \<open>
  The assignment \<^verbatim>\<open>activeLayer.pathData = p\<close> of line 1003, on the layer that
  \<^verbatim>\<open>getActivePathLayer\<close> returned: later reads of that layer in the same handler
  see the new path.
\<close>

definition setActivePathData :: "path \<Rightarrow> services \<Rightarrow> services" where
  "setActivePathData p sv =
     (case activePathId sv of
        None \<Rightarrow> sv
      | Some i \<Rightarrow>
          sv\<lparr>pathLayers :=
               (pathLayers sv)(i := map_option (\<lambda>l. l\<lparr>pathData := p\<rparr>) (pathLayers sv i))\<rparr>)"

text \<open>
  Lines 1017-1021: the hover and the selection are reset and the path built by the
  mutator replaces the active path.
\<close>

definition commitMutator :: "canvas_type \<Rightarrow> path_mutator \<Rightarrow> effect list" where
  "commitMutator ct m = [HoverReset, SelectionReset, UpdateActivePath ct (build m)]"

text \<open>
  Lines 985-1022 of \<^verbatim>\<open>onMouseUp\<close>: a split point was dragged and released where the
  path projects to \<open>projOntoPath\<close>; \<open>old\<close> is the index of the dragged point. The
  result is the calls made and the error raised, if any.
\<close>

definition commitDraggedSplitPoint ::
  "collaborators \<Rightarrow> services \<Rightarrow> canvas_type \<Rightarrow> point \<Rightarrow> projection_onto_path \<Rightarrow> command_index
     \<Rightarrow> effect list \<times> error option" where
  "commitDraggedSplitPoint ext sv ct mouseUp projOntoPath old =
     (let newSubIdx = subIdx projOntoPath; newCmdIdx = cmdIdx projOntoPath;
          oldSubIdx = subIdx old; oldCmdIdx = cmdIdx old
      in if newSubIdx = oldSubIdx then
           (case getActivePathLayer sv of
              None \<Rightarrow> ([], Some TypeError)
            | Some activeLayer \<Rightarrow>
                (let startingPath = pathData activeLayer;
                     pathMutator = mutate startingPath
                 in if newCmdIdx > oldCmdIdx then
                      ([Mutate startingPath] @
                       commitMutator ct
                         (record_op (UnsplitCommand oldSubIdx oldCmdIdx)
                            (record_op (SplitCommand newSubIdx newCmdIdx
                                          (proj_t (projection projOntoPath))) pathMutator)),
                       None)
                    else if newCmdIdx < oldCmdIdx then
                      ([Mutate startingPath] @
                       commitMutator ct
                         (record_op (SplitCommand newSubIdx newCmdIdx
                                       (proj_t (projection projOntoPath)))
                            (record_op (UnsplitCommand oldSubIdx oldCmdIdx) pathMutator)),
                       None)
                    else
                      (let unsplit = record_op (UnsplitCommand oldSubIdx oldCmdIdx) pathMutator;
                           assigned = build unsplit
                       in case calculateProjectionOntoPath ext (setActivePathData assigned sv) mouseUp of
                            Inl e \<Rightarrow> ([Mutate startingPath, SetPathData assigned], Some e)
                          | Inr None \<Rightarrow> ([Mutate startingPath, SetPathData assigned], Some TypeError)
                          | Inr (Some tempProjOntoPath) \<Rightarrow>
                              if oldSubIdx = subIdx tempProjOntoPath then
                                ([Mutate startingPath, SetPathData assigned] @
                                 commitMutator ct
                                   (record_op (SplitCommand (subIdx tempProjOntoPath)
                                                 (cmdIdx tempProjOntoPath)
                                                 (proj_t (projection tempProjOntoPath))) unsplit),
                                 None)
                              else
                                ([Mutate startingPath, SetPathData assigned, Mutate startingPath] @
                                 commitMutator ct (mutate startingPath),
                                 None))))
         else ([], None))"

text \<open>\<^verbatim>\<open>onMouseUp\<close> in the mode \<^verbatim>\<open>SelectPoints\<close> (lines 976-1044), after line 974.\<close>

definition onMouseUpSelectPoints ::
  "collaborators \<Rightarrow> services \<Rightarrow> mouse_event \<Rightarrow> component \<Rightarrow> handler_result" where
  "onMouseUpSelectPoints ext sv ev c1 =
     (case pointDragger c1 of
        None \<Rightarrow> finish c1 [ShowRuler]
      | Some dragger \<Rightarrow>
          (let mouseUp = mousePoint ev;
               d = draggerOnMouseUp dragger;
               c2 = c1\<lparr>pointDragger := Some d\<rparr>;
               index = selectedCommandIndex d
           in if isDragTriggered d then
                (if selectedPointSplit d then
                   (case calculateProjectionOntoPath ext sv mouseUp of
                      Inl e \<Rightarrow> throw c2 [ShowRuler] e
                    | Inr None \<Rightarrow> throw c2 [ShowRuler] TypeError
                    | Inr (Some projOntoPath) \<Rightarrow>
                        (case commitDraggedSplitPoint ext sv (canvasType c2) mouseUp projOntoPath index of
                           (es, Some e) \<Rightarrow> throw c2 (ShowRuler # es) e
                         | (es, None) \<Rightarrow>
                             finish (c2\<lparr>pointDragger := None\<rparr>) (ShowRuler # es @ [Draw])))
                 else finish (c2\<lparr>pointDragger := None\<rparr>) [ShowRuler, Draw])
              else
                finish (c2\<lparr>pointDragger := None\<rparr>)
                  [ShowRuler,
                   SelectionToggle
                     \<lparr>selection_type = SelectionSubPath, selection_source = canvasType c2,
                      selection_subIdx = subIdx index, selection_cmdIdx = None\<rparr> None,
                   SelectionToggle
                     \<lparr>selection_type = SelectionCommand, selection_source = canvasType c2,
                      selection_subIdx = subIdx index, selection_cmdIdx = Some (cmdIdx index)\<rparr>
                     (Some (shiftKey ev \<or> metaKey ev)),
                   Draw]))"

text \<open>
  Lines 1069-1084: the two points at which a filled subpath is split, put in order, and
  the three operations recorded on the mutator.
\<close>

definition splitFilledSubPathAt ::
  "projection_onto_path \<Rightarrow> projection_onto_path \<Rightarrow> path_mutator \<Rightarrow> path_mutator" where
  "splitFilledSubPathAt initial projOntoPath pathMutator =
     (let firstCmdIdx = cmdIdx initial; firstT = proj_t (projection initial);
          secondCmdIdx = cmdIdx projOntoPath; secondT = proj_t (projection projOntoPath);
          swap = (firstCmdIdx > secondCmdIdx \<or> firstCmdIdx = secondCmdIdx \<and> firstT > secondT);
          firstCmdIdx' = (if swap then secondCmdIdx else firstCmdIdx);
          firstT' = (if swap then secondT else firstT);
          secondCmdIdx' = (if swap then firstCmdIdx else secondCmdIdx);
          secondT' = (if swap then firstT else secondT)
      in record_op (SplitFilledSubPath (subIdx projOntoPath) firstCmdIdx' (secondCmdIdx' + 1))
           (record_op (SplitCommand (subIdx projOntoPath) (secondCmdIdx' + 1) secondT')
              (record_op (SplitCommand (subIdx projOntoPath) firstCmdIdx' firstT') pathMutator)))"

text \<open>
  Lines 1059-1092: what a mouse up in range records on the mutator, and what becomes of
  \<^verbatim>\<open>initialFilledSubPathProjOntoPath\<close>.
\<close>

definition splitOnMouseUp ::
  "app_mode \<Rightarrow> path_layer \<Rightarrow> projection_onto_path \<Rightarrow> projection_onto_path option \<Rightarrow> path_mutator
     \<Rightarrow> projection_onto_path option \<times> path_mutator" where
  "splitOnMouseUp mode layer projOntoPath initial pathMutator =
     (if mode = AddPoints then
        (initial,
         record_op (SplitCommand (subIdx projOntoPath) (cmdIdx projOntoPath)
                      (proj_t (projection projOntoPath))) pathMutator)
      else if mode = SplitSubPaths then
        (if isFilled layer then
           (case initial of
              None \<Rightarrow> (Some projOntoPath, pathMutator)
            | Some first \<Rightarrow>
                if subIdx first \<noteq> subIdx projOntoPath then (None, pathMutator)
                else (None, splitFilledSubPathAt first projOntoPath pathMutator))
         else if isStroked layer then
           (initial,
            record_op (SplitStrokedSubPath (subIdx projOntoPath) (cmdIdx projOntoPath))
              (record_op (SplitCommand (subIdx projOntoPath) (cmdIdx projOntoPath)
                            (proj_t (projection projOntoPath))) pathMutator))
         else (initial, pathMutator))
      else (initial, pathMutator))"

text \<open>
  \<^verbatim>\<open>onMouseUp\<close> outside \<^verbatim>\<open>SelectPoints\<close> (lines 1046-1101), after line 974, where
  \<^verbatim>\<open>lastKnownMouseLocation\<close> became the point of the event.
\<close>

definition onMouseUpSplit ::
  "collaborators \<Rightarrow> services \<Rightarrow> mouse_event \<Rightarrow> component \<Rightarrow> handler_result" where
  "onMouseUpSplit ext sv ev c1 =
     (case performHitTest ext sv (mousePoint ev) None of
        Inl e \<Rightarrow> throw c1 [ShowRuler] e
      | Inr hitResult \<Rightarrow>
          if appMode sv = AddPoints \<or> appMode sv = SplitSubPaths then
            (if shouldPerformActionOnMouseUp c1 then
               (case lastKnownMouseLocation c1 of
                  None \<Rightarrow> throw c1 [ShowRuler] TypeError
                | Some location \<Rightarrow>
                    (case calculateProjectionOntoPath ext sv location of
                       Inl e \<Rightarrow> throw c1 [ShowRuler] e
                     | Inr None \<Rightarrow> throw c1 [ShowRuler] TypeError
                     | Inr (Some projOntoPath) \<Rightarrow>
                         if proj_d (projection projOntoPath) < MIN_SNAP_THRESHOLD then
                           (case getActivePathLayer sv of
                              None \<Rightarrow> throw c1 [ShowRuler] TypeError
                            | Some layer \<Rightarrow>
                                (case splitOnMouseUp (appMode sv) layer projOntoPath
                                        (initialFilledSubPathProjOntoPath c1)
                                        (mutate (pathData layer)) of
                                   (initial, pathMutator) \<Rightarrow>
                                     finish
                                       (c1\<lparr>initialFilledSubPathProjOntoPath := initial,
                                           shouldPerformActionOnMouseUp := False\<rparr>)
                                       [ShowRuler, Mutate (pathData layer),
                                        UpdateActivePath (canvasType c1) (build pathMutator),
                                        Draw]))
                         else
                           finish
                             (c1\<lparr>initialFilledSubPathProjOntoPath := None,
                                 shouldPerformActionOnMouseUp := False\<rparr>)
                             [ShowRuler, Draw]))
             else finish c1 [ShowRuler, Draw])
          else finish c1 [ShowRuler])"

text \<open>\<^verbatim>\<open>onMouseUp\<close> (lines 967-1102).\<close>

definition onMouseUp :: "collaborators \<Rightarrow> services \<Rightarrow> mouse_event \<Rightarrow> component \<Rightarrow> handler_result" where
  "onMouseUp ext sv ev c =
     (if \<not> shouldProcessMouseEvents c sv then finish c [ShowRuler]
      else
        let c1 = c\<lparr>lastKnownMouseLocation := Some (mousePoint ev)\<rparr>
        in if appMode sv = SelectPoints then onMouseUpSelectPoints ext sv ev c1
           else onMouseUpSplit ext sv ev c1)"

subsection \<open>Mouse leave, mode changes, hovers\<close>

text \<open>\<^verbatim>\<open>onMouseLeave\<close> (lines 1104-1129); \<^verbatim>\<open>PointDragger.onMouseLeave\<close> does nothing.\<close>

definition onMouseLeave :: "services \<Rightarrow> mouse_event \<Rightarrow> component \<Rightarrow> handler_result" where
  "onMouseLeave sv ev c =
     (if \<not> shouldProcessMouseEvents c sv then finish c [HideMouse]
      else
        let c1 = c\<lparr>lastKnownMouseLocation := Some (mousePoint ev)\<rparr>
        in if appMode sv = SelectPoints then
             (case pointDragger c1 of
                Some d \<Rightarrow> finish c1 [HideMouse, Draw]
              | None \<Rightarrow> finish c1 [HideMouse])
           else if appMode sv = AddPoints \<or> appMode sv = SplitSubPaths then
             finish
               (c1\<lparr>shouldPerformActionOnMouseUp := False,
                   initialFilledSubPathProjOntoPath := None\<rparr>)
               [HideMouse, Draw]
           else finish c1 [HideMouse])"

text \<open>
  The callback on the app mode (lines 199-209), which only a canvas that is not the
  preview subscribes.
\<close>

definition onAppModeChanged :: "component \<Rightarrow> handler_result" where
  "onAppModeChanged c =
     (if canvasType c = Preview then finish c []
      else
        finish
          (c\<lparr>pointDragger := None, shouldPerformActionOnMouseUp := False,
             lastKnownMouseLocation := None, initialFilledSubPathProjOntoPath := None\<rparr>)
          [SelectionReset, HoverReset, Draw])"

text \<open>\<^verbatim>\<open>updateCurrentHoverFn\<close> (lines 210-238).\<close>

definition hoverPreviewPath :: "path_mutator \<Rightarrow> hover \<Rightarrow> path option" where
  "hoverPreviewPath mutator h =
     (let s = subIdx (hover_index h); i = cmdIdx (hover_index h)
      in case hover_type h of
           HoverSplit \<Rightarrow> Some (build (record_op (SplitCommandInHalf s i) mutator))
         | HoverUnsplit \<Rightarrow> Some (build (record_op (UnsplitCommand s i) mutator))
         | HoverReverse \<Rightarrow> Some (build (record_op (ReverseSubPath s) mutator))
         | HoverShiftForward \<Rightarrow> Some (build (record_op (ShiftSubPathForward s) mutator))
         | HoverShiftBack \<Rightarrow> Some (build (record_op (ShiftSubPathBack s) mutator))
         | HoverCommand \<Rightarrow> None
         | HoverSubPath \<Rightarrow> None)"

definition updateCurrentHoverFn :: "services \<Rightarrow> hover option \<Rightarrow> component \<Rightarrow> handler_result" where
  "updateCurrentHoverFn sv hover c =
     (case (if shouldDrawLayers sv then hover else None) of
        Some h \<Rightarrow>
          (case activePath sv of
             Inl e \<Rightarrow> throw c [] e
           | Inr None \<Rightarrow> throw c [] TypeError
           | Inr (Some p) \<Rightarrow>
               finish (c\<lparr>currentHoverPreviewPath := hoverPreviewPath (mutate p) h\<rparr>)
                 [Mutate p, DrawOverlays])
      | None \<Rightarrow> finish (c\<lparr>currentHoverPreviewPath := None\<rparr>) [DrawOverlays])"

text \<open>
  The callback on the hover service (lines 239-253), which only a canvas that is not the
  preview subscribes.
\<close>

definition onHoverChanged :: "services \<Rightarrow> hover option \<Rightarrow> component \<Rightarrow> handler_result" where
  "onHoverChanged sv hover c =
     (if canvasType c = Preview then finish c []
      else
        (case hover of
           None \<Rightarrow> updateCurrentHoverFn sv None c
         | Some h \<Rightarrow>
             if hover_source h \<noteq> canvasType c \<and> hover_type h \<noteq> HoverCommand
             then updateCurrentHoverFn sv None c
             else updateCurrentHoverFn sv (Some h) c))"

subsection \<open>Sequences of events\<close>

text \<open>
  An event carries what the services return while it is handled. \<open>run\<close> handles a
  list of events one after the other; after a handler that raised, the component goes on
  from the fields as the raise left them.
\<close>

datatype event =
    MouseDown services mouse_event
  | MouseMove services mouse_event
  | MouseUp services mouse_event
  | MouseLeave services mouse_event
  | AppModeChanged
  | HoverChanged services "hover option"

fun step :: "collaborators \<Rightarrow> event \<Rightarrow> component \<Rightarrow> handler_result" where
  "step ext (MouseDown sv ev) c = onMouseDown ext sv ev c"
| "step ext (MouseMove sv ev) c = onMouseMove ext sv ev c"
| "step ext (MouseUp sv ev) c = onMouseUp ext sv ev c"
| "step ext (MouseLeave sv ev) c = onMouseLeave sv ev c"
| "step ext AppModeChanged c = onAppModeChanged c"
| "step ext (HoverChanged sv hover) c = onHoverChanged sv hover c"

fun run :: "collaborators \<Rightarrow> event list \<Rightarrow> component \<Rightarrow> component" where
  "run ext [] c = c"
| "run ext (e # es) c = run ext es (after (step ext e c))"

text \<open>
  A mouse down that arms the component: it is processed, in one of the two splitting
  modes, its hit test finds a segment, and the projection of the last segment hit is
  closer than the snap threshold.
\<close>

definition armingMouseDown :: "collaborators \<Rightarrow> component \<Rightarrow> services \<Rightarrow> mouse_event \<Rightarrow> bool" where
  "armingMouseDown ext c sv ev =
     (shouldProcessMouseEvents c sv \<and> (appMode sv = AddPoints \<or> appMode sv = SplitSubPaths) \<and>
      (case performHitTest ext sv (mousePoint ev) (mouseDownHitTestOpts (appMode sv)) of
         Inl e \<Rightarrow> False
       | Inr hitResult \<Rightarrow>
           isSegmentHit hitResult \<and>
           (case lastOf (segmentHits hitResult) of
              None \<Rightarrow> False
            | Some h \<Rightarrow> proj_d (projection h) < MIN_SNAP_THRESHOLD)))"


subsection \<open>The preview canvas\<close>

text \<open>
  What \<^verbatim>\<open>interpolatePreview\<close> reads: the animated value and, for the three canvases,
  the active path layer, the active rotation layer and the vector layer, each
  \<^verbatim>\<open>undefined\<close> (\<open>None\<close>) when there is none.
\<close>

record preview_services =
  animatedValue :: real
  startPathLayer :: "path_layer option"
  previewPathLayer :: "path_layer option"
  endPathLayer :: "path_layer option"
  startGroupLayer :: "layer option"
  previewGroupLayer :: "layer option"
  endGroupLayer :: "layer option"
  startVectorLayer :: "layer option"
  previewVectorLayer :: "layer option"
  endVectorLayer :: "layer option"

text \<open>
  The calls of \<^verbatim>\<open>interpolatePreview\<close>: \<^verbatim>\<open>preview.interpolate(start, end, fraction)\<close>
  on a path layer, a group layer and a vector layer (the receiver first), and
  \<^verbatim>\<open>this.draw()\<close>.
\<close>

datatype preview_call =
    PathLayerInterpolate path_layer path_layer path_layer real
  | GroupLayerInterpolate layer layer layer real
  | VectorLayerInterpolate layer layer layer real
  | PreviewDraw

text \<open>
  \<^verbatim>\<open>interpolatePreview\<close> (lines 162-186). \<^verbatim>\<open>PathLayer.isMorphableWith\<close> is a
  parameter.
\<close>

definition interpolatePreview ::
  "(path_layer \<Rightarrow> path_layer \<Rightarrow> bool) \<Rightarrow> preview_services \<Rightarrow> preview_call list" where
  "interpolatePreview isMorphableWith sv =
     (let fraction = animatedValue sv
      in (case (startPathLayer sv, previewPathLayer sv, endPathLayer sv) of
            (Some startLayer, Some preview, Some endLayer) \<Rightarrow>
              if isMorphableWith startLayer endLayer
              then [PathLayerInterpolate preview startLayer endLayer fraction] else []
          | _ \<Rightarrow> [])
         @ (case (startGroupLayer sv, previewGroupLayer sv, endGroupLayer sv) of
              (Some startLayer, Some preview, Some endLayer) \<Rightarrow>
                [GroupLayerInterpolate preview startLayer endLayer fraction]
            | _ \<Rightarrow> [])
         @ (case (startVectorLayer sv, previewVectorLayer sv, endVectorLayer sv) of
              (Some startLayer, Some preview, Some endLayer) \<Rightarrow>
                [VectorLayerInterpolate preview startLayer endLayer fraction]
            | _ \<Rightarrow> [])
         @ [PreviewDraw])"

section \<open>The engine, as the specification describes it\<close>

text \<open>
  Modelled from the spec: \<^verbatim>\<open>interpolate(start, end, fraction)\<close> of the Morpher, whose
  code is not among the sources. The specification (4.5) says that it requires
  \<^verbatim>\<open>isMorphableWith(start, end)\<close> to be true and fails with \<^verbatim>\<open>NotMorphableError\<close>
  otherwise, and that it blends the two paths point by point, for every fraction.
  The test of morphability and the blend are parameters.
\<close>

definition interpolate ::
  "('p \<Rightarrow> 'p \<Rightarrow> bool) \<Rightarrow> ('p \<Rightarrow> 'p \<Rightarrow> real \<Rightarrow> 'p) \<Rightarrow> 'p \<Rightarrow> 'p \<Rightarrow> real \<Rightarrow> error + 'p" where
  "interpolate isMorphableWith blend startPath endPath fraction =
     (if isMorphableWith startPath endPath then Inr (blend startPath endPath fraction)
      else Inl NotMorphableError)"

text \<open>
  Modelled from the spec: \<^verbatim>\<open>splitCommand(subIdx, cmdIdx, t)\<close> of the PathMutator, whose
  code is not among the sources. The specification (4.3) says that it replaces the
  command at \<^verbatim>\<open>cmdIdx\<close> with the two commands of \<^verbatim>\<open>splitAt(t)\<close>, that all later
  commands of that subpath shift their index by one, and that it fails with
  \<^verbatim>\<open>IndexOutOfRangeError\<close> on an index out of bounds; \<^verbatim>\<open>splitAt\<close> (4.1) fails with
  \<^verbatim>\<open>InvalidParameterError\<close> unless \<open>t\<close> is strictly between 0 and 1. A path is the
  list of its subpaths, a subpath the list of its commands, and the curve mathematics of
  \<^verbatim>\<open>splitAt\<close> is a parameter.
\<close>

definition splitCommand ::
  "('c \<Rightarrow> real \<Rightarrow> 'c \<times> 'c) \<Rightarrow> 'c list list \<Rightarrow> nat \<Rightarrow> nat \<Rightarrow> real \<Rightarrow> error + 'c list list" where
  "splitCommand splitAt subPaths s i t =
     (if length subPaths \<le> s then Inl IndexOutOfRangeError
      else
        let cmds = subPaths ! s
        in if length cmds \<le> i then Inl IndexOutOfRangeError
           else if \<not> (0 < t \<and> t < 1) then Inl InvalidParameterError
           else
             (case splitAt (cmds ! i) t of
                (firstHalf, secondHalf) \<Rightarrow>
                  Inr (subPaths[s := take i cmds @ [firstHalf, secondHalf] @ drop (Suc i) cmds])))"

section \<open>Example inputs\<close>

text \<open>
  Inputs at which the properties below are evaluated: a vector layer with one group that
  holds the path layer \<open>p\<close>; collaborators that project a point straight down onto the
  x axis (the command index is the integer part of the abscissa, the distance the
  ordinate, and a path that was rebuilt projects to subpath 1 instead of subpath 0), that
  report one segment hit at that projection, and whose only non-trivial transform is an
  inverse, which shifts a point by one to the left.
\<close>

definition exampleVectorLayer :: layer where
  "exampleVectorLayer =
     Layer ''vl'' VectorLayerClass (Some
       [Layer ''g'' (GroupLayerClass \<lparr>pivotX = 1, pivotY = 2, translateX = 3, translateY = 4,
                                     rotation = 90, scaleX = 5, scaleY = 6\<rparr>) (Some
          [Layer ''p'' PathLayerClass None])])"

definition examplePathLayer :: "bool \<Rightarrow> path_layer" where
  "examplePathLayer filled =
     \<lparr>pathData = PathData 0, isFilled = filled, isStroked = \<not> filled, strokeWidth = 2\<rparr>"

definition exampleServices :: "app_mode \<Rightarrow> bool \<Rightarrow> services" where
  "exampleServices mode filled =
     \<lparr>vectorLayer = Some exampleVectorLayer, activePathId = Some ''p'', appMode = mode,
      pathLayers = (\<lambda>i. if i = ''p'' then Some (examplePathLayer filled) else None),
      largePointRadius = 1\<rparr>"

definition exampleProjection :: "path \<Rightarrow> point \<Rightarrow> projection_onto_path" where
  "exampleProjection p pt =
     \<lparr>subIdx = (case p of PathData n \<Rightarrow> 0 | Built q xs \<Rightarrow> 1),
      cmdIdx = nat \<lfloor>fst pt\<rfloor>,
      projection = \<lparr>proj_x = fst pt, proj_y = 0, proj_d = \<bar>snd pt\<bar>, proj_t = 1 / 2\<rparr>\<rparr>"

definition exampleCollaborators :: collaborators where
  "exampleCollaborators =
     \<lparr>transformPoint = (\<lambda>pt m. case m of Invert n \<Rightarrow> (fst pt - 1, snd pt) | _ \<Rightarrow> pt),
      project = (\<lambda>p pt. Some (exampleProjection p pt)),
      hitTest = (\<lambda>p pt args.
        \<lparr>isHit = True, isEndPointHit = False, isSegmentHit = True, endPointHits = [],
         segmentHits = [exampleProjection p pt], shapeHits = []\<rparr>),
      getCommand = (\<lambda>p s i. Inr (Some True)),
      getSubPath = (\<lambda>p s. Some False),
      distance = (\<lambda>a b. \<bar>fst a - fst b\<bar> + \<bar>snd a - snd b\<bar>),
      multiply = (\<lambda>a b. a * b)\<rparr>"

text \<open>
  Collaborators that show what they are given: the transformed point depends on the
  first matrix of the flattened list (a translation is applied as it stands under
  \<^verbatim>\<open>Matrix.flatten\<close> and ten times over under \<^verbatim>\<open>flattenTransforms\<close>), and the hit
  result tells which range functions and which flag the call carried.
\<close>

definition probingCollaborators :: collaborators where
  "probingCollaborators =
     exampleCollaborators
       \<lparr>transformPoint :=
          (\<lambda>pt m. case m of
             Invert (MatrixFlatten (FromTranslation a b # ms)) \<Rightarrow> (fst pt + a, snd pt + b)
           | Invert (FlattenTransforms (FromTranslation a b # ms)) \<Rightarrow>
               (fst pt + 10 * a, snd pt + 10 * b)
           | _ \<Rightarrow> pt),
        hitTest :=
          (\<lambda>p pt args.
             \<lparr>isHit = True,
              isEndPointHit = (isPointInRangeFn args \<noteq> None),
              isSegmentHit = (isSegmentInRangeFn args \<noteq> None),
              endPointHits = [],
              segmentHits = [exampleProjection p pt],
              shapeHits = (if findShapesInRange args then [\<lparr>subIdx = 0, cmdIdx = 0\<rparr>] else [])\<rparr>)\<rparr>"

definition exampleEvent :: "real \<Rightarrow> real \<Rightarrow> mouse_event" where
  "exampleEvent a b = \<lparr>mousePoint = (a, b), shiftKey = False, metaKey = False\<rparr>"

text \<open>
  A component of the start canvas in the middle of a drag of the split point at command
  \<open>i\<close> of subpath 0.
\<close>

definition draggingComponent :: "nat \<Rightarrow> component" where
  "draggingComponent i =
     (initialComponent Start)
       \<lparr>pointDragger :=
          Some \<lparr>isDragTriggered = True, isMouseDown = True, mouseDown = (0, 0),
                selectedCommandIndex = \<lparr>subIdx = 0, cmdIdx = i\<rparr>,
                selectedPointSplit = True\<rparr>\<rparr>"

text \<open>
  What the preview canvas reads when the three path layers exist and there are no
  rotation layers; path layers count as morphable when both are filled or both are not.
\<close>

definition examplePreviewServices :: "real \<Rightarrow> bool \<Rightarrow> preview_services" where
  "examplePreviewServices fraction endFilled =
     \<lparr>animatedValue = fraction,
      startPathLayer = Some (examplePathLayer True),
      previewPathLayer = Some (examplePathLayer True),
      endPathLayer = Some (examplePathLayer endFilled),
      startGroupLayer = None, previewGroupLayer = None, endGroupLayer = None,
      startVectorLayer = Some exampleVectorLayer,
      previewVectorLayer = Some exampleVectorLayer,
      endVectorLayer = Some exampleVectorLayer\<rparr>"

definition exampleMorphable :: "path_layer \<Rightarrow> path_layer \<Rightarrow> bool" where
  "exampleMorphable a b = (isFilled a = isFilled b)"

section \<open>Properties\<close>

subsection \<open>The transforms of a layer\<close>

lemma getTransforms_None_iff:
  "(getTransformsFn layerId ps l = None) = (layerId \<notin> layerIds l)"
  "(getTransformsLoop layerId ps ls = None) = (layerId \<notin> layerIdsList ls)"
  by (induction layerId ps l and layerId ps ls rule: getTransformsFn_getTransformsLoop.induct)
     (auto split: option.splits)

lemma getTransforms_Some_chain:
  "getTransformsFn layerId ps l = Some ms \<Longrightarrow>
     \<exists>ancestors target. ancestorChain l ancestors target \<and> layer_id target = layerId
        \<and> ms = concat (map layerTransforms (ps @ ancestors))"
  "getTransformsLoop layerId ps ls = Some ms \<Longrightarrow>
     \<exists>child ancestors target. child \<in> set ls \<and> ancestorChain child ancestors target
        \<and> layer_id target = layerId \<and> ms = concat (map layerTransforms (ps @ ancestors))"
proof (induction layerId ps l and layerId ps ls arbitrary: ms and ms
    rule: getTransformsFn_getTransformsLoop.induct)
  case (1 layerId parents i c ch)
  show ?case
  proof (cases "i = layerId")
    case True
    with "1.prems" have "ms = concat (map layerTransforms (parents @ []))" by simp
    moreover have "ancestorChain (Layer i c ch) [] (Layer i c ch)" by (rule chainHere)
    ultimately show ?thesis using True by fastforce
  next
    case False
    with "1.prems" obtain cs where ch: "ch = Some cs"
      and loop: "getTransformsLoop layerId (parents @ [Layer i c ch]) cs = Some ms"
      by (auto split: option.splits)
    from "1.IH"[OF False ch loop] obtain child ancestors target where
      c: "child \<in> set cs" "ancestorChain child ancestors target" "layer_id target = layerId"
      "ms = concat (map layerTransforms ((parents @ [Layer i c ch]) @ ancestors))"
      by blast
    have "ancestorChain (Layer i c ch) (Layer i c ch # ancestors) target"
      using ch c(1,2) by (intro chainBelow[where cs = cs and child = child]) simp_all
    then show ?thesis using c(3,4) by fastforce
  qed
next
  case (2 layerId parents)
  then show ?case by simp
next
  case (3 layerId parents child rest)
  show ?case
  proof (cases "getTransformsFn layerId parents child")
    case None
    with "3.prems" have "getTransformsLoop layerId parents rest = Some ms" by simp
    from "3.IH"(2)[OF None this] show ?thesis by fastforce
  next
    case (Some ts)
    with "3.prems" have "ts = ms" by simp
    with Some "3.IH"(1) show ?thesis by fastforce
  qed
qed

lemma layerTransforms_class:
  "layerTransforms l =
     (case layer_class l of
        GroupLayerClass g \<Rightarrow>
          [FromTranslation (pivotX g) (pivotY g),
           FromTranslation (translateX g) (translateY g),
           FromRotation (rotation g),
           FromScaling (scaleX g) (scaleY g),
           FromTranslation (- pivotX g) (- pivotY g)]
      | _ \<Rightarrow> [])"
  by (cases l rule: layerTransforms.cases) simp_all

lemma getTransformsForLayer_chain:
  assumes "getTransformsForLayer vl layerId = Some ts"
  shows "\<exists>ancestors target. ancestorChain vl ancestors target \<and> layer_id target = layerId
           \<and> ts = concat (map layerTransforms ancestors)"
  using getTransforms_Some_chain(1)[of layerId "[]" vl ts] assms
  by (simp add: getTransformsForLayer_def)

text \<open>
  C6. For an id that occurs in the tree, \<open>getTransformsForLayer\<close> returns the
  transforms of the ancestors of a layer with that id, from the root down to its parent:
  for each ancestor that is a group the five matrices translate by the pivot, translate,
  rotate, scale, translate back by the pivot, in that order, and nothing for an ancestor
  that is not a group. For an id that does not occur it returns \<open>undefined\<close>.
\<close>

theorem getTransformsForLayer_top_down:
  "(layerId \<in> layerIds vl \<longrightarrow>
      (\<exists>ancestors target.
         ancestorChain vl ancestors target \<and> layer_id target = layerId \<and>
         getTransformsForLayer vl layerId =
           Some (concat (map (\<lambda>l. case layer_class l of
                   GroupLayerClass g \<Rightarrow>
                     [FromTranslation (pivotX g) (pivotY g),
                      FromTranslation (translateX g) (translateY g),
                      FromRotation (rotation g),
                      FromScaling (scaleX g) (scaleY g),
                      FromTranslation (- pivotX g) (- pivotY g)]
                 | _ \<Rightarrow> []) ancestors)))) \<and>
   (layerId \<notin> layerIds vl \<longrightarrow> getTransformsForLayer vl layerId = None)"
proof (intro conjI impI)
  assume "layerId \<in> layerIds vl"
  then obtain ms where ms: "getTransformsForLayer vl layerId = Some ms"
    using getTransforms_None_iff(1)[of layerId "[]" vl]
    by (cases "getTransformsForLayer vl layerId") (auto simp: getTransformsForLayer_def)
  from getTransformsForLayer_chain[OF ms] obtain ancestors target where
    "ancestorChain vl ancestors target" "layer_id target = layerId"
    "ms = concat (map layerTransforms ancestors)"
    by blast
  moreover have "layerTransforms = (\<lambda>l. case layer_class l of
                   GroupLayerClass g \<Rightarrow>
                     [FromTranslation (pivotX g) (pivotY g),
                      FromTranslation (translateX g) (translateY g),
                      FromRotation (rotation g),
                      FromScaling (scaleX g) (scaleY g),
                      FromTranslation (- pivotX g) (- pivotY g)]
                 | _ \<Rightarrow> [])"
    by (rule ext) (rule layerTransforms_class)
  ultimately show "\<exists>ancestors target.
         ancestorChain vl ancestors target \<and> layer_id target = layerId \<and>
         getTransformsForLayer vl layerId =
           Some (concat (map (\<lambda>l. case layer_class l of
                   GroupLayerClass g \<Rightarrow>
                     [FromTranslation (pivotX g) (pivotY g),
                      FromTranslation (translateX g) (translateY g),
                      FromRotation (rotation g),
                      FromScaling (scaleX g) (scaleY g),
                      FromTranslation (- pivotX g) (- pivotY g)]
                 | _ \<Rightarrow> []) ancestors))"
    using ms by metis
next
  assume "layerId \<notin> layerIds vl"
  then show "getTransformsForLayer vl layerId = None"
    unfolding getTransformsForLayer_def using getTransforms_None_iff(1) by blast
qed

text \<open>
  The theorem at a vector layer with one group that holds one path: the id of the path
  occurs and its transforms are the five matrices of the group; the id \<open>q\<close> does not
  occur.
\<close>

theorem getTransformsForLayer_top_down_witness:
  "''p'' \<in> layerIds
      (Layer ''vl'' VectorLayerClass (Some
         [Layer ''g'' (GroupLayerClass \<lparr>pivotX = 1, pivotY = 2, translateX = 3, translateY = 4,
                                       rotation = 90, scaleX = 5, scaleY = 6\<rparr>) (Some
            [Layer ''p'' PathLayerClass None])])) \<and>
   getTransformsForLayer
      (Layer ''vl'' VectorLayerClass (Some
         [Layer ''g'' (GroupLayerClass \<lparr>pivotX = 1, pivotY = 2, translateX = 3, translateY = 4,
                                       rotation = 90, scaleX = 5, scaleY = 6\<rparr>) (Some
            [Layer ''p'' PathLayerClass None])])) ''p''
     = Some [FromTranslation 1 2, FromTranslation 3 4, FromRotation 90, FromScaling 5 6,
             FromTranslation (- 1) (- 2)] \<and>
   ''q'' \<notin> layerIds
      (Layer ''vl'' VectorLayerClass (Some
         [Layer ''g'' (GroupLayerClass \<lparr>pivotX = 1, pivotY = 2, translateX = 3, translateY = 4,
                                       rotation = 90, scaleX = 5, scaleY = 6\<rparr>) (Some
            [Layer ''p'' PathLayerClass None])])) \<and>
   getTransformsForLayer
      (Layer ''vl'' VectorLayerClass (Some
         [Layer ''g'' (GroupLayerClass \<lparr>pivotX = 1, pivotY = 2, translateX = 3, translateY = 4,
                                       rotation = 90, scaleX = 5, scaleY = 6\<rparr>) (Some
            [Layer ''p'' PathLayerClass None])])) ''q'' = None"
  using getTransformsForLayer_top_down
    [of "''p''" "Layer ''vl'' VectorLayerClass (Some
         [Layer ''g'' (GroupLayerClass \<lparr>pivotX = 1, pivotY = 2, translateX = 3, translateY = 4,
                                       rotation = 90, scaleX = 5, scaleY = 6\<rparr>) (Some
            [Layer ''p'' PathLayerClass None])])"]
    getTransformsForLayer_top_down
    [of "''q''" "Layer ''vl'' VectorLayerClass (Some
         [Layer ''g'' (GroupLayerClass \<lparr>pivotX = 1, pivotY = 2, translateX = 3, translateY = 4,
                                       rotation = 90, scaleX = 5, scaleY = 6\<rparr>) (Some
            [Layer ''p'' PathLayerClass None])])"]
  by (simp add: getTransformsForLayer_def)

subsection \<open>Hit tests and projections take a point in the path's coordinates\<close>

lemma performHitTest_Inr:
  assumes "performHitTest ext sv mouse optsArg = Inr hitResult"
  shows "\<exists>vl i ts layer p.
           vectorLayer sv = Some vl \<and> activePathId sv = Some i \<and>
           getTransformsForLayer vl i = Some ts \<and> activePathLayer sv = Some layer \<and>
           activePath sv = Inr (Some p) \<and>
           hitResult =
             hitTest ext p (transformPoint ext mouse (Invert (MatrixFlatten (rev ts))))
               (hitTestArgs ext
                  (case optsArg of
                     None \<Rightarrow> \<lparr>noPoints = None, noSegments = None, noShapes = None\<rparr>
                   | Some given \<Rightarrow> given)
                  layer (largePointRadius sv))"
  using assms
  by (auto simp: performHitTest_def transformsForActiveLayer_def Let_def
           split: option.splits sum.splits)






lemma example_transforms:
  "getTransformsForLayer exampleVectorLayer ''p'' =
     Some [FromTranslation 1 2, FromTranslation 3 4, FromRotation 90, FromScaling 5 6,
           FromTranslation (- 1) (- 2)]"
  by (simp add: getTransformsForLayer_def exampleVectorLayer_def)

lemma example_activePath_layer:
  "activePathLayer (exampleServices mode filled) = Some (examplePathLayer filled)"
  "activePath (exampleServices mode filled) = Inr (Some (PathData 0))"
  "transformsForActiveLayer (exampleServices mode filled) =
     Inr (Some [FromTranslation 1 2, FromTranslation 3 4, FromRotation 90, FromScaling 5 6,
                FromTranslation (- 1) (- 2)])"
  by (simp_all add: activePathLayer_def activePath_def getActivePathLayer_def truthyId_def
        transformsForActiveLayer_def exampleServices_def example_transforms examplePathLayer_def)

lemma probing_performHitTest:
  "performHitTest probingCollaborators (exampleServices mode filled) (a, b) optsArg =
     Inr \<lparr>isHit = True,
          isEndPointHit = (\<not> truthy (noPoints (case optsArg of
             None \<Rightarrow> \<lparr>noPoints = None, noSegments = None, noShapes = None\<rparr>
           | Some given \<Rightarrow> given))),
          isSegmentHit = (\<not> truthy (noSegments (case optsArg of
             None \<Rightarrow> \<lparr>noPoints = None, noSegments = None, noShapes = None\<rparr>
           | Some given \<Rightarrow> given))),
          endPointHits = [],
          segmentHits = [exampleProjection (PathData 0) (a - 1, b - 2)],
          shapeHits = (if filled \<and> \<not> truthy (noShapes (case optsArg of
             None \<Rightarrow> \<lparr>noPoints = None, noSegments = None, noShapes = None\<rparr>
           | Some given \<Rightarrow> given)) then [\<lparr>subIdx = 0, cmdIdx = 0\<rparr>] else [])\<rparr>"
  by (simp add: performHitTest_def example_activePath_layer Let_def)
     (simp add: probingCollaborators_def hitTestArgs_def examplePathLayer_def)




subsection \<open>The categories of a hit test\<close>

lemma hitTestArgs_categories:
  "(isPointInRangeFn (hitTestArgs ext opts layer r) \<noteq> None) = (\<not> truthy (noPoints opts))"
  "(isSegmentInRangeFn (hitTestArgs ext opts layer r) \<noteq> None) = (\<not> truthy (noSegments opts))"
  "findShapesInRange (hitTestArgs ext opts layer r) = (isFilled layer \<and> \<not> truthy (noShapes opts))"
  by (simp_all add: hitTestArgs_def)

lemma onMouseDown_splitting_modes:
  assumes "shouldProcessMouseEvents c sv" and "appMode sv = AddPoints \<or> appMode sv = SplitSubPaths"
  shows "onMouseDown ext sv ev c =
     (case performHitTest ext sv (mousePoint ev)
             (Some \<lparr>noPoints = Some True, noSegments = None, noShapes = Some True\<rparr>) of
        Inl e \<Rightarrow> throw (c\<lparr>lastKnownMouseLocation := Some (mousePoint ev)\<rparr>) [ShowRuler] e
      | Inr hitResult \<Rightarrow>
          if isSegmentHit hitResult then
            (case lastOf (segmentHits hitResult) of
               None \<Rightarrow> throw (c\<lparr>lastKnownMouseLocation := Some (mousePoint ev)\<rparr>) [ShowRuler] TypeError
             | Some h \<Rightarrow>
                 finish
                   (c\<lparr>lastKnownMouseLocation := Some (mousePoint ev),
                      shouldPerformActionOnMouseUp := proj_d (projection h) < MIN_SNAP_THRESHOLD\<rparr>)
                   [ShowRuler, Draw])
          else finish (c\<lparr>lastKnownMouseLocation := Some (mousePoint ev)\<rparr>) [ShowRuler, Draw])"
  using assms
  by (auto simp: onMouseDown_def mouseDownHitTestOpts_def Let_def split: sum.splits option.splits)

text \<open>
  C7. The call of \<^verbatim>\<open>hitTest\<close> that \<^verbatim>\<open>performHitTest\<close> makes, and whose result it
  returns, carries the endpoint predicate exactly when \<^verbatim>\<open>noPoints\<close> is not set, the
  segment predicate exactly when \<^verbatim>\<open>noSegments\<close> is not set, and
  \<^verbatim>\<open>findShapesInRange\<close> is true exactly when the active path layer is filled and
  \<^verbatim>\<open>noShapes\<close> is not set. In the modes AddPoints and SplitSubPaths the mouse down
  passes \<^verbatim>\<open>noPoints\<close> and \<^verbatim>\<open>noShapes\<close>: the call of \<^verbatim>\<open>hitTest\<close> behind its hit
  result has no endpoint predicate, has the segment predicate and does not look for
  shapes, and the handler reads nothing of the result but the segment hits.
\<close>

theorem performHitTest_categories:
  "(\<forall>hitResult.
      performHitTest ext sv mouse optsArg = Inr hitResult \<longrightarrow>
      (\<exists>layer p pt args.
         activePathLayer sv = Some layer \<and> activePath sv = Inr (Some p) \<and>
         hitResult = hitTest ext p pt args \<and>
         (isPointInRangeFn args \<noteq> None) =
            (\<not> truthy (noPoints (case optsArg of
                None \<Rightarrow> \<lparr>noPoints = None, noSegments = None, noShapes = None\<rparr>
              | Some given \<Rightarrow> given))) \<and>
         (isSegmentInRangeFn args \<noteq> None) =
            (\<not> truthy (noSegments (case optsArg of
                None \<Rightarrow> \<lparr>noPoints = None, noSegments = None, noShapes = None\<rparr>
              | Some given \<Rightarrow> given))) \<and>
         findShapesInRange args =
            (isFilled layer \<and>
             \<not> truthy (noShapes (case optsArg of
                None \<Rightarrow> \<lparr>noPoints = None, noSegments = None, noShapes = None\<rparr>
              | Some given \<Rightarrow> given))))) \<and>
   (shouldProcessMouseEvents c sv \<and> (appMode sv = AddPoints \<or> appMode sv = SplitSubPaths) \<longrightarrow>
      mouseDownHitTestOpts (appMode sv) =
        Some \<lparr>noPoints = Some True, noSegments = None, noShapes = Some True\<rparr> \<and>
      (\<forall>hitResult.
         performHitTest ext sv (mousePoint ev) (mouseDownHitTestOpts (appMode sv)) = Inr hitResult
         \<longrightarrow> (\<exists>p pt args.
                hitResult = hitTest ext p pt args \<and>
                isPointInRangeFn args = None \<and> isSegmentInRangeFn args \<noteq> None \<and>
                \<not> findShapesInRange args)) \<and>
      onMouseDown ext sv ev c =
        (case performHitTest ext sv (mousePoint ev)
                (Some \<lparr>noPoints = Some True, noSegments = None, noShapes = Some True\<rparr>) of
           Inl e \<Rightarrow> throw (c\<lparr>lastKnownMouseLocation := Some (mousePoint ev)\<rparr>) [ShowRuler] e
         | Inr hitResult \<Rightarrow>
             if isSegmentHit hitResult then
               (case lastOf (segmentHits hitResult) of
                  None \<Rightarrow>
                    throw (c\<lparr>lastKnownMouseLocation := Some (mousePoint ev)\<rparr>) [ShowRuler] TypeError
                | Some h \<Rightarrow>
                    finish
                      (c\<lparr>lastKnownMouseLocation := Some (mousePoint ev),
                         shouldPerformActionOnMouseUp :=
                           proj_d (projection h) < MIN_SNAP_THRESHOLD\<rparr>)
                      [ShowRuler, Draw])
             else finish (c\<lparr>lastKnownMouseLocation := Some (mousePoint ev)\<rparr>) [ShowRuler, Draw]))"
proof (rule conjI)
  show "\<forall>hitResult.
      performHitTest ext sv mouse optsArg = Inr hitResult \<longrightarrow>
      (\<exists>layer p pt args.
         activePathLayer sv = Some layer \<and> activePath sv = Inr (Some p) \<and>
         hitResult = hitTest ext p pt args \<and>
         (isPointInRangeFn args \<noteq> None) =
            (\<not> truthy (noPoints (case optsArg of
                None \<Rightarrow> \<lparr>noPoints = None, noSegments = None, noShapes = None\<rparr>
              | Some given \<Rightarrow> given))) \<and>
         (isSegmentInRangeFn args \<noteq> None) =
            (\<not> truthy (noSegments (case optsArg of
                None \<Rightarrow> \<lparr>noPoints = None, noSegments = None, noShapes = None\<rparr>
              | Some given \<Rightarrow> given))) \<and>
         findShapesInRange args =
            (isFilled layer \<and>
             \<not> truthy (noShapes (case optsArg of
                None \<Rightarrow> \<lparr>noPoints = None, noSegments = None, noShapes = None\<rparr>
              | Some given \<Rightarrow> given))))"
  proof (intro allI impI)
    fix hitResult
    assume "performHitTest ext sv mouse optsArg = Inr hitResult"
    from performHitTest_Inr[OF this] obtain ts layer p where
      l: "activePathLayer sv = Some layer" and p: "activePath sv = Inr (Some p)"
      and r: "hitResult =
             hitTest ext p (transformPoint ext mouse (Invert (MatrixFlatten (rev ts))))
               (hitTestArgs ext
                  (case optsArg of
                     None \<Rightarrow> \<lparr>noPoints = None, noSegments = None, noShapes = None\<rparr>
                   | Some given \<Rightarrow> given)
                  layer (largePointRadius sv))"
      by blast
    show "\<exists>layer p pt args.
         activePathLayer sv = Some layer \<and> activePath sv = Inr (Some p) \<and>
         hitResult = hitTest ext p pt args \<and>
         (isPointInRangeFn args \<noteq> None) =
            (\<not> truthy (noPoints (case optsArg of
                None \<Rightarrow> \<lparr>noPoints = None, noSegments = None, noShapes = None\<rparr>
              | Some given \<Rightarrow> given))) \<and>
         (isSegmentInRangeFn args \<noteq> None) =
            (\<not> truthy (noSegments (case optsArg of
                None \<Rightarrow> \<lparr>noPoints = None, noSegments = None, noShapes = None\<rparr>
              | Some given \<Rightarrow> given))) \<and>
         findShapesInRange args =
            (isFilled layer \<and>
             \<not> truthy (noShapes (case optsArg of
                None \<Rightarrow> \<lparr>noPoints = None, noSegments = None, noShapes = None\<rparr>
              | Some given \<Rightarrow> given)))"
      by (rule exI[of _ layer], rule exI[of _ p],
          rule exI[of _ "transformPoint ext mouse (Invert (MatrixFlatten (rev ts)))"],
          rule exI[of _ "hitTestArgs ext
                  (case optsArg of
                     None \<Rightarrow> \<lparr>noPoints = None, noSegments = None, noShapes = None\<rparr>
                   | Some given \<Rightarrow> given)
                  layer (largePointRadius sv)"])
         (simp add: l p r hitTestArgs_def)
  qed
next
  show "shouldProcessMouseEvents c sv \<and> (appMode sv = AddPoints \<or> appMode sv = SplitSubPaths) \<longrightarrow>
      mouseDownHitTestOpts (appMode sv) =
        Some \<lparr>noPoints = Some True, noSegments = None, noShapes = Some True\<rparr> \<and>
      (\<forall>hitResult.
         performHitTest ext sv (mousePoint ev) (mouseDownHitTestOpts (appMode sv)) = Inr hitResult
         \<longrightarrow> (\<exists>p pt args.
                hitResult = hitTest ext p pt args \<and>
                isPointInRangeFn args = None \<and> isSegmentInRangeFn args \<noteq> None \<and>
                \<not> findShapesInRange args)) \<and>
      onMouseDown ext sv ev c =
        (case performHitTest ext sv (mousePoint ev)
                (Some \<lparr>noPoints = Some True, noSegments = None, noShapes = Some True\<rparr>) of
           Inl e \<Rightarrow> throw (c\<lparr>lastKnownMouseLocation := Some (mousePoint ev)\<rparr>) [ShowRuler] e
         | Inr hitResult \<Rightarrow>
             if isSegmentHit hitResult then
               (case lastOf (segmentHits hitResult) of
                  None \<Rightarrow>
                    throw (c\<lparr>lastKnownMouseLocation := Some (mousePoint ev)\<rparr>) [ShowRuler] TypeError
                | Some h \<Rightarrow>
                    finish
                      (c\<lparr>lastKnownMouseLocation := Some (mousePoint ev),
                         shouldPerformActionOnMouseUp :=
                           proj_d (projection h) < MIN_SNAP_THRESHOLD\<rparr>)
                      [ShowRuler, Draw])
             else finish (c\<lparr>lastKnownMouseLocation := Some (mousePoint ev)\<rparr>) [ShowRuler, Draw])"
  proof
    assume m: "shouldProcessMouseEvents c sv \<and> (appMode sv = AddPoints \<or> appMode sv = SplitSubPaths)"
    have opts: "mouseDownHitTestOpts (appMode sv) =
        Some \<lparr>noPoints = Some True, noSegments = None, noShapes = Some True\<rparr>"
      using m by (simp add: mouseDownHitTestOpts_def)
    have call: "\<exists>p pt args.
                hitResult = hitTest ext p pt args \<and>
                isPointInRangeFn args = None \<and> isSegmentInRangeFn args \<noteq> None \<and>
                \<not> findShapesInRange args"
      if "performHitTest ext sv (mousePoint ev) (mouseDownHitTestOpts (appMode sv)) = Inr hitResult"
      for hitResult
    proof -
      from performHitTest_Inr[OF that] obtain ts layer p where
        r: "hitResult =
             hitTest ext p (transformPoint ext (mousePoint ev) (Invert (MatrixFlatten (rev ts))))
               (hitTestArgs ext \<lparr>noPoints = Some True, noSegments = None, noShapes = Some True\<rparr>
                  layer (largePointRadius sv))"
        unfolding opts by auto
      have "isPointInRangeFn (hitTestArgs ext
                \<lparr>noPoints = Some True, noSegments = None, noShapes = Some True\<rparr>
                layer (largePointRadius sv)) = None"
        and "isSegmentInRangeFn (hitTestArgs ext
                \<lparr>noPoints = Some True, noSegments = None, noShapes = Some True\<rparr>
                layer (largePointRadius sv)) \<noteq> None"
        and "\<not> findShapesInRange (hitTestArgs ext
                \<lparr>noPoints = Some True, noSegments = None, noShapes = Some True\<rparr>
                layer (largePointRadius sv))"
        by (simp_all add: hitTestArgs_def truthy_def)
      with r show ?thesis by blast
    qed
    from opts call onMouseDown_splitting_modes[of c sv ext ev] m
    show "mouseDownHitTestOpts (appMode sv) =
        Some \<lparr>noPoints = Some True, noSegments = None, noShapes = Some True\<rparr> \<and>
      (\<forall>hitResult.
         performHitTest ext sv (mousePoint ev) (mouseDownHitTestOpts (appMode sv)) = Inr hitResult
         \<longrightarrow> (\<exists>p pt args.
                hitResult = hitTest ext p pt args \<and>
                isPointInRangeFn args = None \<and> isSegmentInRangeFn args \<noteq> None \<and>
                \<not> findShapesInRange args)) \<and>
      onMouseDown ext sv ev c =
        (case performHitTest ext sv (mousePoint ev)
                (Some \<lparr>noPoints = Some True, noSegments = None, noShapes = Some True\<rparr>) of
           Inl e \<Rightarrow> throw (c\<lparr>lastKnownMouseLocation := Some (mousePoint ev)\<rparr>) [ShowRuler] e
         | Inr hitResult \<Rightarrow>
             if isSegmentHit hitResult then
               (case lastOf (segmentHits hitResult) of
                  None \<Rightarrow>
                    throw (c\<lparr>lastKnownMouseLocation := Some (mousePoint ev)\<rparr>) [ShowRuler] TypeError
                | Some h \<Rightarrow>
                    finish
                      (c\<lparr>lastKnownMouseLocation := Some (mousePoint ev),
                         shouldPerformActionOnMouseUp :=
                           proj_d (projection h) < MIN_SNAP_THRESHOLD\<rparr>)
                      [ShowRuler, Draw])
             else finish (c\<lparr>lastKnownMouseLocation := Some (mousePoint ev)\<rparr>) [ShowRuler, Draw])"
      by blast
  qed
qed

lemma example_shouldProcess:
  "shouldProcessMouseEvents (initialComponent Start) (exampleServices mode filled)"
  by (simp add: shouldProcessMouseEvents_def initialComponent_def exampleServices_def truthyId_def)

lemma example_performHitTest:
  "performHitTest exampleCollaborators (exampleServices mode filled) (a, b) optsArg =
     Inr \<lparr>isHit = True, isEndPointHit = False, isSegmentHit = True, endPointHits = [],
          segmentHits = [exampleProjection (PathData 0) (a - 1, b)], shapeHits = []\<rparr>"
  by (simp add: performHitTest_def example_activePath_layer Let_def)
     (simp add: exampleCollaborators_def)

text \<open>
  The theorem at the example inputs, with the collaborators that show what they are
  given, a filled path layer in the mode SplitSubPaths and a mouse down at \<open>(5, 1)\<close>:
  the hit result of the mouse down says that the call had no endpoint predicate, had the
  segment predicate and did not look for shapes, while a hit test without options has
  both predicates and looks for shapes; the handler arms the component, the projection
  being at distance 1.
\<close>

theorem performHitTest_categories_witness:
  "shouldProcessMouseEvents (initialComponent Start) (exampleServices SplitSubPaths True) \<and>
   appMode (exampleServices SplitSubPaths True) = SplitSubPaths \<and>
   performHitTest probingCollaborators (exampleServices SplitSubPaths True) (5, 1)
     (mouseDownHitTestOpts SplitSubPaths) =
     Inr \<lparr>isHit = True, isEndPointHit = False, isSegmentHit = True, endPointHits = [],
          segmentHits = [exampleProjection (PathData 0) (4, - 1)], shapeHits = []\<rparr> \<and>
   performHitTest probingCollaborators (exampleServices SplitSubPaths True) (5, 1) None =
     Inr \<lparr>isHit = True, isEndPointHit = True, isSegmentHit = True, endPointHits = [],
          segmentHits = [exampleProjection (PathData 0) (4, - 1)],
          shapeHits = [\<lparr>subIdx = 0, cmdIdx = 0\<rparr>]\<rparr> \<and>
   performHitTest probingCollaborators (exampleServices SplitSubPaths False) (5, 1) None =
     Inr \<lparr>isHit = True, isEndPointHit = True, isSegmentHit = True, endPointHits = [],
          segmentHits = [exampleProjection (PathData 0) (4, - 1)], shapeHits = []\<rparr> \<and>
   onMouseDown probingCollaborators (exampleServices SplitSubPaths True) (exampleEvent 5 1)
     (initialComponent Start) =
     finish ((initialComponent Start)
               \<lparr>lastKnownMouseLocation := Some (5, 1), shouldPerformActionOnMouseUp := True\<rparr>)
       [ShowRuler, Draw]"
proof -
  have am: "appMode (exampleServices SplitSubPaths True) = SplitSubPaths"
    by (simp add: exampleServices_def)
  have m: "shouldProcessMouseEvents (initialComponent Start) (exampleServices SplitSubPaths True) \<and>
           (appMode (exampleServices SplitSubPaths True) = AddPoints \<or>
            appMode (exampleServices SplitSubPaths True) = SplitSubPaths)"
    by (simp add: example_shouldProcess am)
  have down: "performHitTest probingCollaborators (exampleServices SplitSubPaths True) (5, 1)
     (Some \<lparr>noPoints = Some True, noSegments = None, noShapes = Some True\<rparr>) =
     Inr \<lparr>isHit = True, isEndPointHit = False, isSegmentHit = True, endPointHits = [],
          segmentHits = [exampleProjection (PathData 0) (4, - 1)], shapeHits = []\<rparr>"
    using probing_performHitTest[of SplitSubPaths True 5 1
      "Some \<lparr>noPoints = Some True, noSegments = None, noShapes = Some True\<rparr>"]
    by (simp add: truthy_def)
  have plain: "performHitTest probingCollaborators (exampleServices SplitSubPaths filled) (5, 1) None =
     Inr \<lparr>isHit = True, isEndPointHit = True, isSegmentHit = True, endPointHits = [],
          segmentHits = [exampleProjection (PathData 0) (4, - 1)],
          shapeHits = (if filled then [\<lparr>subIdx = 0, cmdIdx = 0\<rparr>] else [])\<rparr>" for filled
    using probing_performHitTest[of SplitSubPaths filled 5 1 None] by (simp add: truthy_def)
  note th = performHitTest_categories
    [of probingCollaborators "exampleServices SplitSubPaths True" "(5, 1)" None
        "initialComponent Start" "exampleEvent 5 1", THEN conjunct2, THEN mp, OF m]
  from th have "onMouseDown probingCollaborators (exampleServices SplitSubPaths True)
      (exampleEvent 5 1) (initialComponent Start) =
     finish ((initialComponent Start)
               \<lparr>lastKnownMouseLocation := Some (5, 1), shouldPerformActionOnMouseUp := True\<rparr>)
       [ShowRuler, Draw]"
    by (simp add: am exampleEvent_def down lastOf_def exampleProjection_def
          MIN_SNAP_THRESHOLD_def)
  then show ?thesis
    using down plain[of True] plain[of False]
    by (simp add: mouseDownHitTestOpts_def example_shouldProcess am)
qed

subsection \<open>Dragging a split point\<close>

lemma onMouseUp_dragged_split_point:
  assumes "shouldProcessMouseEvents c sv" and "appMode sv = SelectPoints"
    and "pointDragger c = Some d" and "isDragTriggered d" and "selectedPointSplit d"
    and "calculateProjectionOntoPath ext sv (mousePoint ev) = Inr (Some proj)"
    and "commitDraggedSplitPoint ext sv (canvasType c) (mousePoint ev) proj
           (selectedCommandIndex d) = (es, None)"
  shows "onMouseUp ext sv ev c =
           finish (c\<lparr>lastKnownMouseLocation := Some (mousePoint ev), pointDragger := None\<rparr>)
             (ShowRuler # es @ [Draw])"
  using assms
  by (simp add: onMouseUp_def onMouseUpSelectPoints_def draggerOnMouseUp_def Let_def)

lemma commitDraggedSplitPoint_distinct:
  assumes "subIdx proj = subIdx old" and "getActivePathLayer sv = Some layer"
  shows "cmdIdx proj > cmdIdx old \<Longrightarrow>
           commitDraggedSplitPoint ext sv ct mouseUp proj old =
             ([Mutate (pathData layer), HoverReset, SelectionReset,
               UpdateActivePath ct
                 (Built (pathData layer)
                    [SplitCommand (subIdx proj) (cmdIdx proj) (proj_t (projection proj)),
                     UnsplitCommand (subIdx old) (cmdIdx old)])], None)"
    and "cmdIdx proj < cmdIdx old \<Longrightarrow>
           commitDraggedSplitPoint ext sv ct mouseUp proj old =
             ([Mutate (pathData layer), HoverReset, SelectionReset,
               UpdateActivePath ct
                 (Built (pathData layer)
                    [UnsplitCommand (subIdx old) (cmdIdx old),
                     SplitCommand (subIdx proj) (cmdIdx proj) (proj_t (projection proj))])], None)"
  using assms
  by (simp_all add: commitDraggedSplitPoint_def Let_def commitMutator_def build_def
        record_op_def mutate_def)

text \<open>
  C1. When a dragged split point is released on its own subpath at a command index other
  than its own, the mouse up records two operations on the mutator, the split at the new
  index and the unsplit at the old one, and the one with the higher command index comes
  first: the split when the new index is the higher, the unsplit when it is the lower.
\<close>

theorem drag_commit_higher_index_first:
  assumes "shouldProcessMouseEvents c sv" and "appMode sv = SelectPoints"
    and "pointDragger c = Some d" and "isDragTriggered d" and "selectedPointSplit d"
    and "calculateProjectionOntoPath ext sv (mousePoint ev) = Inr (Some proj)"
    and "subIdx proj = subIdx (selectedCommandIndex d)"
    and "cmdIdx proj \<noteq> cmdIdx (selectedCommandIndex d)"
    and "getActivePathLayer sv = Some layer"
  shows "\<exists>first second i j.
           thrown (onMouseUp ext sv ev c) = None \<and>
           effects (onMouseUp ext sv ev c) =
             [ShowRuler, Mutate (pathData layer), HoverReset, SelectionReset,
              UpdateActivePath (canvasType c) (Built (pathData layer) [first, second]), Draw] \<and>
           (first, second) =
             (if cmdIdx proj > cmdIdx (selectedCommandIndex d)
              then (SplitCommand (subIdx proj) (cmdIdx proj) (proj_t (projection proj)),
                    UnsplitCommand (subIdx (selectedCommandIndex d)) (cmdIdx (selectedCommandIndex d)))
              else (UnsplitCommand (subIdx (selectedCommandIndex d)) (cmdIdx (selectedCommandIndex d)),
                    SplitCommand (subIdx proj) (cmdIdx proj) (proj_t (projection proj)))) \<and>
           commandIndexOf first = Some i \<and> commandIndexOf second = Some j \<and> j < i"
proof (cases "cmdIdx proj > cmdIdx (selectedCommandIndex d)")
  case True
  from commitDraggedSplitPoint_distinct(1)[OF assms(7,9) True]
    onMouseUp_dragged_split_point[OF assms(1-6)]
  have "onMouseUp ext sv ev c =
          finish (c\<lparr>lastKnownMouseLocation := Some (mousePoint ev), pointDragger := None\<rparr>)
            (ShowRuler #
             [Mutate (pathData layer), HoverReset, SelectionReset,
              UpdateActivePath (canvasType c)
                (Built (pathData layer)
                   [SplitCommand (subIdx proj) (cmdIdx proj) (proj_t (projection proj)),
                    UnsplitCommand (subIdx (selectedCommandIndex d))
                      (cmdIdx (selectedCommandIndex d))])] @ [Draw])"
    by blast
  then show ?thesis using True by (simp add: finish_def)
next
  case False
  with assms(8) have lt: "cmdIdx proj < cmdIdx (selectedCommandIndex d)" by simp
  from commitDraggedSplitPoint_distinct(2)[OF assms(7,9) lt]
    onMouseUp_dragged_split_point[OF assms(1-6)]
  have "onMouseUp ext sv ev c =
          finish (c\<lparr>lastKnownMouseLocation := Some (mousePoint ev), pointDragger := None\<rparr>)
            (ShowRuler #
             [Mutate (pathData layer), HoverReset, SelectionReset,
              UpdateActivePath (canvasType c)
                (Built (pathData layer)
                   [UnsplitCommand (subIdx (selectedCommandIndex d))
                      (cmdIdx (selectedCommandIndex d)),
                    SplitCommand (subIdx proj) (cmdIdx proj) (proj_t (projection proj))])]
             @ [Draw])"
    by blast
  then show ?thesis using False lt by (simp add: finish_def)
qed

lemma example_dragging_process:
  "shouldProcessMouseEvents (draggingComponent i) (exampleServices mode filled)"
  by (simp add: shouldProcessMouseEvents_def draggingComponent_def initialComponent_def
        exampleServices_def truthyId_def)

lemma example_calculateProjection:
  "calculateProjectionOntoPath exampleCollaborators (exampleServices mode filled) (a, b) =
     Inr (Some (exampleProjection (PathData 0) (a - 1, b)))"
  by (simp add: calculateProjectionOntoPath_def exampleServices_def example_transforms Let_def)
     (simp add: exampleCollaborators_def examplePathLayer_def)

lemma example_activeLayer:
  "getActivePathLayer (exampleServices mode filled) = Some (examplePathLayer filled)"
  by (simp add: getActivePathLayer_def exampleServices_def)

text \<open>
  The theorem at the example inputs: the split point at command 2 is released at
  \<open>(5, 1)\<close>, which projects to command 4, and the split at 4 comes before the unsplit
  at 2.
\<close>

theorem drag_commit_higher_index_first_witness:
  "effects (onMouseUp exampleCollaborators (exampleServices SelectPoints True) (exampleEvent 5 1)
             (draggingComponent 2)) =
     [ShowRuler, Mutate (PathData 0), HoverReset, SelectionReset,
      UpdateActivePath Start (Built (PathData 0) [SplitCommand 0 4 (1 / 2), UnsplitCommand 0 2]),
      Draw]"
proof -
  have proj: "calculateProjectionOntoPath exampleCollaborators (exampleServices SelectPoints True)
                (mousePoint (exampleEvent 5 1)) = Inr (Some (exampleProjection (PathData 0) (4, 1)))"
    using example_calculateProjection[of SelectPoints True 5 1] by (simp add: exampleEvent_def)
  have d: "pointDragger (draggingComponent 2) =
             Some \<lparr>isDragTriggered = True, isMouseDown = True, mouseDown = (0, 0),
                   selectedCommandIndex = \<lparr>subIdx = 0, cmdIdx = 2\<rparr>, selectedPointSplit = True\<rparr>"
    by (simp add: draggingComponent_def)
  from drag_commit_higher_index_first
    [OF example_dragging_process[of 2 SelectPoints True] _ d _ _ proj _ _
        example_activeLayer[of SelectPoints True]]
  show ?thesis
    by (simp add: exampleServices_def exampleProjection_def examplePathLayer_def
          draggingComponent_def initialComponent_def)
qed

lemma commitDraggedSplitPoint_same_index:
  assumes "subIdx proj = subIdx old" and "cmdIdx proj = cmdIdx old"
    and "getActivePathLayer sv = Some layer"
    and "calculateProjectionOntoPath ext
           (setActivePathData (Built (pathData layer) [UnsplitCommand (subIdx old) (cmdIdx old)]) sv)
           mouseUp = Inr (Some temp)"
  shows "commitDraggedSplitPoint ext sv ct mouseUp proj old =
           (if subIdx old = subIdx temp then
              ([Mutate (pathData layer),
                SetPathData (Built (pathData layer) [UnsplitCommand (subIdx old) (cmdIdx old)]),
                HoverReset, SelectionReset,
                UpdateActivePath ct
                  (Built (pathData layer)
                     [UnsplitCommand (subIdx old) (cmdIdx old),
                      SplitCommand (subIdx temp) (cmdIdx temp) (proj_t (projection temp))])],
               None)
            else
              ([Mutate (pathData layer),
                SetPathData (Built (pathData layer) [UnsplitCommand (subIdx old) (cmdIdx old)]),
                Mutate (pathData layer), HoverReset, SelectionReset,
                UpdateActivePath ct (Built (pathData layer) [])],
               None))"
  using assms
  by (simp add: commitDraggedSplitPoint_def Let_def commitMutator_def build_def
        record_op_def mutate_def)

text \<open>
  C2, as the code has it. When a dragged split point is released on its own command, the
  unsplit path is assigned to the active layer and the projection is computed again; when
  that projection lands on another subpath, the handler raises nothing: it takes a fresh
  mutator of the starting path, records nothing on it, and commits the path built from it,
  after resetting the hover and the selection.
\<close>

theorem drag_commit_same_index_gives_up_silently:
  assumes "shouldProcessMouseEvents c sv" and "appMode sv = SelectPoints"
    and "pointDragger c = Some d" and "isDragTriggered d" and "selectedPointSplit d"
    and "calculateProjectionOntoPath ext sv (mousePoint ev) = Inr (Some proj)"
    and "subIdx proj = subIdx (selectedCommandIndex d)"
    and "cmdIdx proj = cmdIdx (selectedCommandIndex d)"
    and "getActivePathLayer sv = Some layer"
    and "calculateProjectionOntoPath ext
           (setActivePathData
              (Built (pathData layer)
                 [UnsplitCommand (subIdx (selectedCommandIndex d)) (cmdIdx (selectedCommandIndex d))])
              sv)
           (mousePoint ev) = Inr (Some temp)"
    and "subIdx temp \<noteq> subIdx (selectedCommandIndex d)"
  shows "thrown (onMouseUp ext sv ev c) = None \<and>
         effects (onMouseUp ext sv ev c) =
           [ShowRuler, Mutate (pathData layer),
            SetPathData
              (Built (pathData layer)
                 [UnsplitCommand (subIdx (selectedCommandIndex d)) (cmdIdx (selectedCommandIndex d))]),
            Mutate (pathData layer), HoverReset, SelectionReset,
            UpdateActivePath (canvasType c) (Built (pathData layer) []), Draw]"
proof -
  from commitDraggedSplitPoint_same_index[OF assms(7,8,9,10)] assms(11)
  have "commitDraggedSplitPoint ext sv (canvasType c) (mousePoint ev) proj (selectedCommandIndex d) =
          ([Mutate (pathData layer),
            SetPathData
              (Built (pathData layer)
                 [UnsplitCommand (subIdx (selectedCommandIndex d)) (cmdIdx (selectedCommandIndex d))]),
            Mutate (pathData layer), HoverReset, SelectionReset,
            UpdateActivePath (canvasType c) (Built (pathData layer) [])], None)"
    by (metis (no_types))
  from onMouseUp_dragged_split_point[OF assms(1-6) this]
  show ?thesis by (simp add: finish_def)
qed

lemma example_appMode: "appMode (exampleServices mode filled) = mode"
  by (simp add: exampleServices_def)

lemma example_calculateProjection_rebuilt:
  "calculateProjectionOntoPath exampleCollaborators
     (setActivePathData (Built (PathData 0) xs) (exampleServices mode filled)) (a, b) =
     Inr (Some (exampleProjection (Built (PathData 0) xs) (a - 1, b)))"
  by (simp add: calculateProjectionOntoPath_def setActivePathData_def
        exampleServices_def example_transforms exampleCollaborators_def examplePathLayer_def)

text \<open>
  The theorem at the example inputs: the split point at command 4 is released at
  \<open>(5, 1)\<close>, which projects to command 4 of subpath 0 on the starting path and to
  subpath 1 on the unsplit path.
\<close>

theorem drag_commit_same_index_gives_up_silently_witness:
  "thrown (onMouseUp exampleCollaborators (exampleServices SelectPoints True) (exampleEvent 5 1)
             (draggingComponent 4)) = None \<and>
   effects (onMouseUp exampleCollaborators (exampleServices SelectPoints True) (exampleEvent 5 1)
              (draggingComponent 4)) =
     [ShowRuler, Mutate (PathData 0), SetPathData (Built (PathData 0) [UnsplitCommand 0 4]),
      Mutate (PathData 0), HoverReset, SelectionReset,
      UpdateActivePath Start (Built (PathData 0) []), Draw]"
proof -
  have proj: "calculateProjectionOntoPath exampleCollaborators (exampleServices SelectPoints True)
                (mousePoint (exampleEvent 5 1)) = Inr (Some (exampleProjection (PathData 0) (4, 1)))"
    using example_calculateProjection[of SelectPoints True 5 1] by (simp add: exampleEvent_def)
  have d: "pointDragger (draggingComponent 4) =
             Some \<lparr>isDragTriggered = True, isMouseDown = True, mouseDown = (0, 0),
                   selectedCommandIndex = \<lparr>subIdx = 0, cmdIdx = 4\<rparr>, selectedPointSplit = True\<rparr>"
    by (simp add: draggingComponent_def)
  have temp: "calculateProjectionOntoPath exampleCollaborators
           (setActivePathData
              (Built (pathData (examplePathLayer True))
                 [UnsplitCommand
                    (subIdx (selectedCommandIndex \<lparr>isDragTriggered = True, isMouseDown = True,
                       mouseDown = (0, 0), selectedCommandIndex = \<lparr>subIdx = 0, cmdIdx = 4\<rparr>,
                       selectedPointSplit = True\<rparr>))
                    (cmdIdx (selectedCommandIndex \<lparr>isDragTriggered = True, isMouseDown = True,
                       mouseDown = (0, 0), selectedCommandIndex = \<lparr>subIdx = 0, cmdIdx = 4\<rparr>,
                       selectedPointSplit = True\<rparr>))])
              (exampleServices SelectPoints True))
           (mousePoint (exampleEvent 5 1)) =
         Inr (Some (exampleProjection (Built (PathData 0) [UnsplitCommand 0 4]) (4, 1)))"
    using example_calculateProjection_rebuilt[of "[UnsplitCommand 0 4]" SelectPoints True 5 1]
    by (simp add: exampleEvent_def examplePathLayer_def)
  from drag_commit_same_index_gives_up_silently
    [OF example_dragging_process[of 4 SelectPoints True] _ d _ _ proj _ _
        example_activeLayer[of SelectPoints True] temp]
  show ?thesis
    by (simp add: exampleServices_def exampleProjection_def examplePathLayer_def
          draggingComponent_def initialComponent_def)
qed

text \<open>
  C2 with a failure in place of the silent commit does not hold at the same inputs: the
  recomputed projection lands on
  subpath 1 while the dragged point is on subpath 0, and the handler does not fail with
  \<^verbatim>\<open>IndexOutOfRangeError\<close>; it ends without an error and commits the starting path,
  rebuilt with no operation.
\<close>

theorem drag_commit_same_index_counterexample:
  "cmdIdx (exampleProjection (PathData 0) (4, 1)) = 4 \<and>
   subIdx (exampleProjection (PathData 0) (4, 1)) = 0 \<and>
   subIdx (exampleProjection (Built (PathData 0) [UnsplitCommand 0 4]) (4, 1)) \<noteq> 0 \<and>
   thrown (onMouseUp exampleCollaborators (exampleServices SelectPoints True) (exampleEvent 5 1)
             (draggingComponent 4)) \<noteq> Some IndexOutOfRangeError \<and>
   UpdateActivePath Start (Built (PathData 0) []) \<in>
     set (effects (onMouseUp exampleCollaborators (exampleServices SelectPoints True)
                     (exampleEvent 5 1) (draggingComponent 4)))"
proof -
  have proj: "calculateProjectionOntoPath exampleCollaborators (exampleServices SelectPoints True)
                (mousePoint (exampleEvent 5 1)) = Inr (Some (exampleProjection (PathData 0) (4, 1)))"
    using example_calculateProjection[of SelectPoints True 5 1] by (simp add: exampleEvent_def)
  have temp: "calculateProjectionOntoPath exampleCollaborators
           (setActivePathData (Built (PathData 0) [UnsplitCommand 0 4])
              (exampleServices SelectPoints True))
           (mousePoint (exampleEvent 5 1)) =
         Inr (Some (exampleProjection (Built (PathData 0) [UnsplitCommand 0 4]) (4, 1)))"
    using example_calculateProjection_rebuilt[of "[UnsplitCommand 0 4]" SelectPoints True 5 1]
    by (simp add: exampleEvent_def)
  have commit: "commitDraggedSplitPoint exampleCollaborators (exampleServices SelectPoints True)
                  Start (mousePoint (exampleEvent 5 1)) (exampleProjection (PathData 0) (4, 1))
                  \<lparr>subIdx = 0, cmdIdx = 4\<rparr> =
          ([Mutate (PathData 0), SetPathData (Built (PathData 0) [UnsplitCommand 0 4]),
            Mutate (PathData 0), HoverReset, SelectionReset,
            UpdateActivePath Start (Built (PathData 0) [])], None)"
    by (simp add: commitDraggedSplitPoint_def Let_def example_activeLayer examplePathLayer_def
          build_def record_op_def mutate_def temp commitMutator_def)
       (simp add: exampleProjection_def)
  have "onMouseUp exampleCollaborators (exampleServices SelectPoints True) (exampleEvent 5 1)
          (draggingComponent 4) =
        finish ((draggingComponent 4)
                  \<lparr>lastKnownMouseLocation := Some (mousePoint (exampleEvent 5 1)),
                    pointDragger := None\<rparr>)
          (ShowRuler #
           [Mutate (PathData 0), SetPathData (Built (PathData 0) [UnsplitCommand 0 4]),
            Mutate (PathData 0), HoverReset, SelectionReset,
            UpdateActivePath Start (Built (PathData 0) [])] @ [Draw])"
    by (rule onMouseUp_dragged_split_point
          [OF example_dragging_process[of 4 SelectPoints True], where d = "\<lparr>isDragTriggered = True,
             isMouseDown = True, mouseDown = (0, 0),
             selectedCommandIndex = \<lparr>subIdx = 0, cmdIdx = 4\<rparr>, selectedPointSplit = True\<rparr>"
             and proj = "exampleProjection (PathData 0) (4, 1)"])
       (simp_all add: example_appMode draggingComponent_def initialComponent_def proj commit)
  then show ?thesis
    by (simp add: finish_def exampleProjection_def)
qed

subsection \<open>Splitting on mouse up\<close>

lemma onMouseUp_in_range:
  assumes "shouldProcessMouseEvents c sv"
    and "appMode sv = AddPoints \<or> appMode sv = SplitSubPaths"
    and "shouldPerformActionOnMouseUp c"
    and "performHitTest ext sv (mousePoint ev) None = Inr hitResult"
    and "calculateProjectionOntoPath ext sv (mousePoint ev) = Inr (Some proj)"
    and "proj_d (projection proj) < MIN_SNAP_THRESHOLD"
    and "getActivePathLayer sv = Some layer"
  shows "onMouseUp ext sv ev c =
           finish
             (c\<lparr>lastKnownMouseLocation := Some (mousePoint ev),
                initialFilledSubPathProjOntoPath :=
                  fst (splitOnMouseUp (appMode sv) layer proj
                         (initialFilledSubPathProjOntoPath c) (mutate (pathData layer))),
                shouldPerformActionOnMouseUp := False\<rparr>)
             [ShowRuler, Mutate (pathData layer),
              UpdateActivePath (canvasType c)
                (build (snd (splitOnMouseUp (appMode sv) layer proj
                               (initialFilledSubPathProjOntoPath c) (mutate (pathData layer))))),
              Draw]"
  using assms
  by (auto simp: onMouseUp_def onMouseUpSplit_def Let_def split: prod.splits)

lemma splitFilledSubPathAt_build:
  "build (splitFilledSubPathAt first proj (mutate p)) =
     Built p
       (if cmdIdx first > cmdIdx proj \<or>
           cmdIdx first = cmdIdx proj \<and> proj_t (projection first) > proj_t (projection proj)
        then [SplitCommand (subIdx proj) (cmdIdx proj) (proj_t (projection proj)),
              SplitCommand (subIdx proj) (cmdIdx first + 1) (proj_t (projection first)),
              SplitFilledSubPath (subIdx proj) (cmdIdx proj) (cmdIdx first + 1)]
        else [SplitCommand (subIdx proj) (cmdIdx first) (proj_t (projection first)),
              SplitCommand (subIdx proj) (cmdIdx proj + 1) (proj_t (projection proj)),
              SplitFilledSubPath (subIdx proj) (cmdIdx first) (cmdIdx proj + 1)])"
  by (simp add: splitFilledSubPathAt_def Let_def build_def record_op_def mutate_def)

lemma splitCommand_Inr:
  assumes "splitCommand splitAt subPaths s i t = Inr subPaths'"
  shows "s < length subPaths \<and> i < length (subPaths ! s) \<and>
         subPaths' = subPaths[s := take i (subPaths ! s) @
                        [fst (splitAt (subPaths ! s ! i) t), snd (splitAt (subPaths ! s ! i) t)] @
                        drop (Suc i) (subPaths ! s)]"
  using assms
  by (auto simp: splitCommand_def Let_def split: if_splits prod.splits)

lemma splitCommand_shifts:
  assumes "splitCommand splitAt subPaths s i t = Inr subPaths'"
  shows "length subPaths' = length subPaths"
    and "length (subPaths' ! s) = length (subPaths ! s) + 1"
    and "subPaths' ! s ! i = fst (splitAt (subPaths ! s ! i) t)"
    and "subPaths' ! s ! (i + 1) = snd (splitAt (subPaths ! s ! i) t)"
    and "j < i \<Longrightarrow> subPaths' ! s ! j = subPaths ! s ! j"
    and "i < j \<Longrightarrow> j < length (subPaths ! s) \<Longrightarrow> subPaths' ! s ! (j + 1) = subPaths ! s ! j"
    and "r \<noteq> s \<Longrightarrow> subPaths' ! r = subPaths ! r"
proof -
  from splitCommand_Inr[OF assms] have s: "s < length subPaths" and i: "i < length (subPaths ! s)"
    and eq: "subPaths' = subPaths[s := take i (subPaths ! s) @
                        [fst (splitAt (subPaths ! s ! i) t), snd (splitAt (subPaths ! s ! i) t)] @
                        drop (Suc i) (subPaths ! s)]"
    by blast+
  have row: "subPaths' ! s = take i (subPaths ! s) @
                        [fst (splitAt (subPaths ! s ! i) t), snd (splitAt (subPaths ! s ! i) t)] @
                        drop (Suc i) (subPaths ! s)"
    using s by (simp add: eq)
  show "length subPaths' = length subPaths" by (simp add: eq)
  show "length (subPaths' ! s) = length (subPaths ! s) + 1" using i by (simp add: row)
  show "subPaths' ! s ! i = fst (splitAt (subPaths ! s ! i) t)"
    using i by (simp add: row nth_append)
  show "subPaths' ! s ! (i + 1) = snd (splitAt (subPaths ! s ! i) t)"
    using i by (simp add: row nth_append)
  show "j < i \<Longrightarrow> subPaths' ! s ! j = subPaths ! s ! j"
    using i by (simp add: row nth_append)
  show "subPaths' ! s ! (j + 1) = subPaths ! s ! j" if "i < j" "j < length (subPaths ! s)"
  proof -
    have "(take i (subPaths ! s) @
            [fst (splitAt (subPaths ! s ! i) t), snd (splitAt (subPaths ! s ! i) t)] @
            drop (Suc i) (subPaths ! s)) ! (j + 1) =
          ([fst (splitAt (subPaths ! s ! i) t), snd (splitAt (subPaths ! s ! i) t)] @
            drop (Suc i) (subPaths ! s)) ! (j + 1 - i)"
      using that i by (simp add: nth_append)
    also have "\<dots> = drop (Suc i) (subPaths ! s) ! (j + 1 - i - 2)"
      using that by (simp add: nth_append)
    also have "\<dots> = subPaths ! s ! (Suc i + (j + 1 - i - 2))"
      using that i by (intro nth_drop) simp
    also have "Suc i + (j + 1 - i - 2) = j" using that by simp
    finally show ?thesis by (simp add: row)
  qed
  show "r \<noteq> s \<Longrightarrow> subPaths' ! r = subPaths ! r" by (simp add: eq)
qed


lemma splitCommand_then_second:
  assumes "splitCommand splitAt subPaths s lo tlo = Inr subPaths'"
  shows "length (subPaths' ! s) = length (subPaths ! s) + 1 \<and>
         subPaths' ! s ! lo = fst (splitAt (subPaths ! s ! lo) tlo) \<and>
         subPaths' ! s ! (lo + 1) = snd (splitAt (subPaths ! s ! lo) tlo) \<and>
         (\<forall>j. j < lo \<longrightarrow> subPaths' ! s ! j = subPaths ! s ! j) \<and>
         (\<forall>j. lo < j \<and> j < length (subPaths ! s) \<longrightarrow> subPaths' ! s ! (j + 1) = subPaths ! s ! j) \<and>
         (lo < hi \<and> hi < length (subPaths ! s) \<longrightarrow> subPaths' ! s ! (hi + 1) = subPaths ! s ! hi) \<and>
         (lo = hi \<longrightarrow> subPaths' ! s ! (hi + 1) = snd (splitAt (subPaths ! s ! lo) tlo))"
proof (intro conjI allI impI)
  show "length (subPaths' ! s) = length (subPaths ! s) + 1"
    by (rule splitCommand_shifts(2)[OF assms])
  show "subPaths' ! s ! lo = fst (splitAt (subPaths ! s ! lo) tlo)"
    by (rule splitCommand_shifts(3)[OF assms])
  show "subPaths' ! s ! (lo + 1) = snd (splitAt (subPaths ! s ! lo) tlo)"
    by (rule splitCommand_shifts(4)[OF assms])
  show "j < lo \<Longrightarrow> subPaths' ! s ! j = subPaths ! s ! j" for j
    by (rule splitCommand_shifts(5)[OF assms])
  show "lo < j \<and> j < length (subPaths ! s) \<Longrightarrow> subPaths' ! s ! (j + 1) = subPaths ! s ! j" for j
    using splitCommand_shifts(6)[OF assms, of j] by simp
  show "lo < hi \<and> hi < length (subPaths ! s) \<Longrightarrow> subPaths' ! s ! (hi + 1) = subPaths ! s ! hi"
    using splitCommand_shifts(6)[OF assms, of hi] by simp
  show "lo = hi \<Longrightarrow> subPaths' ! s ! (hi + 1) = snd (splitAt (subPaths ! s ! lo) tlo)"
    using splitCommand_shifts(4)[OF assms] by simp
qed

text \<open>
  C4. As the specification describes it, \<^verbatim>\<open>splitCommand(subIdx, cmdIdx, t)\<close> puts the two
  halves of \<^verbatim>\<open>splitAt(t)\<close> in the place of the command at \<^verbatim>\<open>cmdIdx\<close> and moves every
  later command of that subpath up by one. Accordingly the component, on the second click
  on a filled subpath in the mode SplitSubPaths, puts the two projections in ascending
  order of command index and then of \<open>t\<close>, records the split at the lower one, then the
  split at the higher command index plus one, and then
  \<^verbatim>\<open>splitFilledSubPath(subIdx, firstCmdIdx, secondCmdIdx + 1)\<close>. After the first split
  the index \<open>hi + 1\<close> is where the command of the second point is: the command that was
  at \<open>hi\<close> when \<open>lo < hi\<close>, the second half of the split when \<open>lo = hi\<close>.
\<close>

theorem split_filled_subpath_order:
  assumes "shouldProcessMouseEvents c sv" and "appMode sv = SplitSubPaths"
    and "shouldPerformActionOnMouseUp c"
    and "performHitTest ext sv (mousePoint ev) None = Inr hitResult"
    and "calculateProjectionOntoPath ext sv (mousePoint ev) = Inr (Some proj)"
    and "proj_d (projection proj) < MIN_SNAP_THRESHOLD"
    and "getActivePathLayer sv = Some layer" and "isFilled layer"
    and "initialFilledSubPathProjOntoPath c = Some first"
    and "subIdx first = subIdx proj"
  shows "\<exists>lo tlo hi thi.
           ((lo, tlo), (hi, thi)) \<in>
             {((cmdIdx first, proj_t (projection first)), (cmdIdx proj, proj_t (projection proj))),
              ((cmdIdx proj, proj_t (projection proj)), (cmdIdx first, proj_t (projection first)))} \<and>
           (lo < hi \<or> lo = hi \<and> tlo \<le> thi) \<and>
           thrown (onMouseUp ext sv ev c) = None \<and>
           effects (onMouseUp ext sv ev c) =
             [ShowRuler, Mutate (pathData layer),
              UpdateActivePath (canvasType c)
                (Built (pathData layer)
                   [SplitCommand (subIdx proj) lo tlo,
                    SplitCommand (subIdx proj) (hi + 1) thi,
                    SplitFilledSubPath (subIdx proj) lo (hi + 1)]),
              Draw] \<and>
           initialFilledSubPathProjOntoPath (after (onMouseUp ext sv ev c)) = None \<and>
           (\<forall>(splitAt :: 'c \<Rightarrow> real \<Rightarrow> 'c \<times> 'c) subPaths subPaths'.
              splitCommand splitAt subPaths (subIdx proj) lo tlo = Inr subPaths' \<longrightarrow>
                length (subPaths' ! subIdx proj) = length (subPaths ! subIdx proj) + 1 \<and>
                subPaths' ! subIdx proj ! lo = fst (splitAt (subPaths ! subIdx proj ! lo) tlo) \<and>
                subPaths' ! subIdx proj ! (lo + 1) = snd (splitAt (subPaths ! subIdx proj ! lo) tlo) \<and>
                (\<forall>j. j < lo \<longrightarrow> subPaths' ! subIdx proj ! j = subPaths ! subIdx proj ! j) \<and>
                (\<forall>j. lo < j \<and> j < length (subPaths ! subIdx proj) \<longrightarrow>
                      subPaths' ! subIdx proj ! (j + 1) = subPaths ! subIdx proj ! j) \<and>
                (lo < hi \<and> hi < length (subPaths ! subIdx proj) \<longrightarrow>
                      subPaths' ! subIdx proj ! (hi + 1) = subPaths ! subIdx proj ! hi) \<and>
                (lo = hi \<longrightarrow>
                      subPaths' ! subIdx proj ! (hi + 1) =
                        snd (splitAt (subPaths ! subIdx proj ! lo) tlo)))"
proof -
  let ?swap = "cmdIdx first > cmdIdx proj \<or>
               cmdIdx first = cmdIdx proj \<and> proj_t (projection first) > proj_t (projection proj)"
  let ?lo = "if ?swap then cmdIdx proj else cmdIdx first"
  let ?tlo = "if ?swap then proj_t (projection proj) else proj_t (projection first)"
  let ?hi = "if ?swap then cmdIdx first else cmdIdx proj"
  let ?thi = "if ?swap then proj_t (projection first) else proj_t (projection proj)"
  have split: "splitOnMouseUp SplitSubPaths layer proj (Some first) (mutate (pathData layer)) =
                 (None, splitFilledSubPathAt first proj (mutate (pathData layer)))"
    using assms(8,10) by (simp add: splitOnMouseUp_def)
  have up: "onMouseUp ext sv ev c =
           finish
             (c\<lparr>lastKnownMouseLocation := Some (mousePoint ev),
                initialFilledSubPathProjOntoPath := None,
                shouldPerformActionOnMouseUp := False\<rparr>)
             [ShowRuler, Mutate (pathData layer),
              UpdateActivePath (canvasType c)
                (Built (pathData layer)
                   [SplitCommand (subIdx proj) ?lo ?tlo,
                    SplitCommand (subIdx proj) (?hi + 1) ?thi,
                    SplitFilledSubPath (subIdx proj) ?lo (?hi + 1)]),
              Draw]"
    using onMouseUp_in_range[OF assms(1) _ assms(3,4,5,6,7)] assms(2,9)
    by (simp add: split splitFilledSubPathAt_build)
  have order: "?lo < ?hi \<or> ?lo = ?hi \<and> ?tlo \<le> ?thi" by auto
  have pair: "((?lo, ?tlo), (?hi, ?thi)) \<in>
             {((cmdIdx first, proj_t (projection first)), (cmdIdx proj, proj_t (projection proj))),
              ((cmdIdx proj, proj_t (projection proj)), (cmdIdx first, proj_t (projection first)))}"
    by simp
  show ?thesis
  proof (intro exI conjI)
    show "((?lo, ?tlo), (?hi, ?thi)) \<in>
             {((cmdIdx first, proj_t (projection first)), (cmdIdx proj, proj_t (projection proj))),
              ((cmdIdx proj, proj_t (projection proj)), (cmdIdx first, proj_t (projection first)))}"
      by (rule pair)
    show "?lo < ?hi \<or> ?lo = ?hi \<and> ?tlo \<le> ?thi" by (rule order)
    show "thrown (onMouseUp ext sv ev c) = None" by (simp add: up finish_def)
    show "effects (onMouseUp ext sv ev c) =
             [ShowRuler, Mutate (pathData layer),
              UpdateActivePath (canvasType c)
                (Built (pathData layer)
                   [SplitCommand (subIdx proj) ?lo ?tlo,
                    SplitCommand (subIdx proj) (?hi + 1) ?thi,
                    SplitFilledSubPath (subIdx proj) ?lo (?hi + 1)]),
              Draw]"
      by (simp only: up finish_def handler_result.simps)
    show "initialFilledSubPathProjOntoPath (after (onMouseUp ext sv ev c)) = None"
      by (simp add: up finish_def)
    show "\<forall>(splitAt :: 'c \<Rightarrow> real \<Rightarrow> 'c \<times> 'c) subPaths subPaths'.
              splitCommand splitAt subPaths (subIdx proj) ?lo ?tlo = Inr subPaths' \<longrightarrow>
                length (subPaths' ! subIdx proj) = length (subPaths ! subIdx proj) + 1 \<and>
                subPaths' ! subIdx proj ! ?lo = fst (splitAt (subPaths ! subIdx proj ! ?lo) ?tlo) \<and>
                subPaths' ! subIdx proj ! (?lo + 1) = snd (splitAt (subPaths ! subIdx proj ! ?lo) ?tlo) \<and>
                (\<forall>j. j < ?lo \<longrightarrow> subPaths' ! subIdx proj ! j = subPaths ! subIdx proj ! j) \<and>
                (\<forall>j. ?lo < j \<and> j < length (subPaths ! subIdx proj) \<longrightarrow>
                      subPaths' ! subIdx proj ! (j + 1) = subPaths ! subIdx proj ! j) \<and>
                (?lo < ?hi \<and> ?hi < length (subPaths ! subIdx proj) \<longrightarrow>
                      subPaths' ! subIdx proj ! (?hi + 1) = subPaths ! subIdx proj ! ?hi) \<and>
                (?lo = ?hi \<longrightarrow>
                      subPaths' ! subIdx proj ! (?hi + 1) =
                        snd (splitAt (subPaths ! subIdx proj ! ?lo) ?tlo))"
      using splitCommand_then_second by blast
  qed
qed

text \<open>
  The theorem at the example inputs: the first click was at command 6, the second, at
  \<open>(5, 1)\<close>, projects to command 4 of the same subpath; the splits are recorded at 4 and
  at 7, and on a subpath of eight commands the command that was at 6 is at 7 after the
  first split.
\<close>

theorem split_filled_subpath_order_witness:
  "effects (onMouseUp exampleCollaborators (exampleServices SplitSubPaths True) (exampleEvent 5 1)
              ((initialComponent Start)
                 \<lparr>shouldPerformActionOnMouseUp := True,
                  initialFilledSubPathProjOntoPath := Some (exampleProjection (PathData 0) (6, 1))\<rparr>)) =
     [ShowRuler, Mutate (PathData 0),
      UpdateActivePath Start
        (Built (PathData 0)
           [SplitCommand 0 4 (1 / 2), SplitCommand 0 7 (1 / 2), SplitFilledSubPath 0 4 7]),
      Draw] \<and>
   splitCommand (\<lambda>n t. (n, n + 100)) [[0, 1, 2, 3, 4, 5, 6, 7 :: nat]] 0 4 (1 / 2) =
     Inr [[0, 1, 2, 3, 4, 104, 5, 6, 7]] \<and>
   [[0, 1, 2, 3, 4, 104, 5, 6, 7 :: nat]] ! 0 ! 7 = [[0, 1, 2, 3, 4, 5, 6, 7]] ! 0 ! 6"
proof -
  have p: "shouldProcessMouseEvents
             ((initialComponent Start)
                 \<lparr>shouldPerformActionOnMouseUp := True,
                  initialFilledSubPathProjOntoPath := Some (exampleProjection (PathData 0) (6, 1))\<rparr>)
             (exampleServices SplitSubPaths True)"
    by (simp add: shouldProcessMouseEvents_def initialComponent_def exampleServices_def truthyId_def)
  have proj: "calculateProjectionOntoPath exampleCollaborators (exampleServices SplitSubPaths True)
                (mousePoint (exampleEvent 5 1)) = Inr (Some (exampleProjection (PathData 0) (4, 1)))"
    using example_calculateProjection[of SplitSubPaths True 5 1] by (simp add: exampleEvent_def)
  have hit: "performHitTest exampleCollaborators (exampleServices SplitSubPaths True)
               (mousePoint (exampleEvent 5 1)) None =
             Inr \<lparr>isHit = True, isEndPointHit = False, isSegmentHit = True, endPointHits = [],
                  segmentHits = [exampleProjection (PathData 0) (5 - 1, 1)], shapeHits = []\<rparr>"
    using example_performHitTest[of SplitSubPaths True 5 1 None] by (simp add: exampleEvent_def)
  have s: "splitCommand (\<lambda>n t. (n, n + 100)) [[0, 1, 2, 3, 4, 5, 6, 7 :: nat]] 0 4 (1 / 2) =
     Inr [[0, 1, 2, 3, 4, 104, 5, 6, 7]]"
    by (simp add: splitCommand_def)
  have d: "proj_d (projection (exampleProjection (PathData 0) (4, 1))) < MIN_SNAP_THRESHOLD"
    by (simp add: exampleProjection_def MIN_SNAP_THRESHOLD_def)
  have f: "isFilled (examplePathLayer True)" by (simp add: examplePathLayer_def)
  have i: "initialFilledSubPathProjOntoPath
             ((initialComponent Start)
                 \<lparr>shouldPerformActionOnMouseUp := True,
                  initialFilledSubPathProjOntoPath := Some (exampleProjection (PathData 0) (6, 1))\<rparr>) =
           Some (exampleProjection (PathData 0) (6, 1))"
    by simp
  have e: "subIdx (exampleProjection (PathData 0) (6, 1)) =
           subIdx (exampleProjection (PathData 0) (4, 1))"
    by (simp add: exampleProjection_def)
  from split_filled_subpath_order
    [OF p example_appMode _ hit proj d example_activeLayer[of SplitSubPaths True] f i e]
  obtain lo tlo hi thi where
    pair: "((lo, tlo), (hi, thi)) \<in>
             {((cmdIdx (exampleProjection (PathData 0) (6, 1)),
                proj_t (projection (exampleProjection (PathData 0) (6, 1)))),
               (cmdIdx (exampleProjection (PathData 0) (4, 1)),
                proj_t (projection (exampleProjection (PathData 0) (4, 1))))),
              ((cmdIdx (exampleProjection (PathData 0) (4, 1)),
                proj_t (projection (exampleProjection (PathData 0) (4, 1)))),
               (cmdIdx (exampleProjection (PathData 0) (6, 1)),
                proj_t (projection (exampleProjection (PathData 0) (6, 1)))))}"
    and order: "lo < hi \<or> lo = hi \<and> tlo \<le> thi"
    and eff: "effects (onMouseUp exampleCollaborators (exampleServices SplitSubPaths True)
                      (exampleEvent 5 1)
                      ((initialComponent Start)
                         \<lparr>shouldPerformActionOnMouseUp := True,
                          initialFilledSubPathProjOntoPath :=
                            Some (exampleProjection (PathData 0) (6, 1))\<rparr>)) =
             [ShowRuler, Mutate (pathData (examplePathLayer True)),
              UpdateActivePath
                (canvasType ((initialComponent Start)
                         \<lparr>shouldPerformActionOnMouseUp := True,
                          initialFilledSubPathProjOntoPath :=
                            Some (exampleProjection (PathData 0) (6, 1))\<rparr>))
                (Built (pathData (examplePathLayer True))
                   [SplitCommand (subIdx (exampleProjection (PathData 0) (4, 1))) lo tlo,
                    SplitCommand (subIdx (exampleProjection (PathData 0) (4, 1))) (hi + 1) thi,
                    SplitFilledSubPath (subIdx (exampleProjection (PathData 0) (4, 1))) lo (hi + 1)]),
              Draw]"
    by (simp add: initialComponent_def) blast
  from pair order have "lo = 4 \<and> tlo = 1 / 2 \<and> hi = 6 \<and> thi = 1 / 2"
    by (auto simp: exampleProjection_def)
  with eff have "effects (onMouseUp exampleCollaborators (exampleServices SplitSubPaths True)
              (exampleEvent 5 1)
              ((initialComponent Start)
                 \<lparr>shouldPerformActionOnMouseUp := True,
                  initialFilledSubPathProjOntoPath := Some (exampleProjection (PathData 0) (6, 1))\<rparr>)) =
     [ShowRuler, Mutate (PathData 0),
      UpdateActivePath Start
        (Built (PathData 0)
           [SplitCommand 0 4 (1 / 2), SplitCommand 0 7 (1 / 2), SplitFilledSubPath 0 4 7]),
      Draw]"
    by (simp add: exampleProjection_def examplePathLayer_def initialComponent_def)
  then show ?thesis using s by simp
qed

subsection \<open>The preview canvas interpolates morphable layers only\<close>

lemma interpolatePreview_path_call:
  "(PathLayerInterpolate preview s e f \<in> set (interpolatePreview isMorphableWith sv)) =
     (startPathLayer sv = Some s \<and> previewPathLayer sv = Some preview \<and>
      endPathLayer sv = Some e \<and> isMorphableWith s e \<and> f = animatedValue sv)"
  by (auto simp: interpolatePreview_def Let_def split: option.splits)

text \<open>
  C3. \<^verbatim>\<open>interpolatePreview\<close> calls \<^verbatim>\<open>interpolate\<close> on the preview path layer exactly
  when the start, preview and end path layers all exist and the start layer is morphable
  with the end layer, with the animated value as the fraction. As the specification
  describes \<^verbatim>\<open>interpolate\<close>, a call made under this guard does not fail with
  \<^verbatim>\<open>NotMorphableError\<close>, whatever the fraction.
\<close>

theorem interpolatePreview_never_not_morphable:
  "(PathLayerInterpolate preview s e f \<in> set (interpolatePreview isMorphableWith sv)) =
     (startPathLayer sv = Some s \<and> previewPathLayer sv = Some preview \<and>
      endPathLayer sv = Some e \<and> isMorphableWith s e \<and> f = animatedValue sv) \<and>
   (PathLayerInterpolate preview s e f \<in> set (interpolatePreview isMorphableWith sv) \<longrightarrow>
      interpolate isMorphableWith blend s e f = Inr (blend s e f) \<and>
      interpolate isMorphableWith blend s e f \<noteq> Inl NotMorphableError)"
  using interpolatePreview_path_call[of preview s e f isMorphableWith sv]
  by (simp add: interpolate_def)

text \<open>
  The theorem at the example inputs, with the fraction \<open>3/10\<close>: the call is made and
  the interpolation succeeds; with an end layer that is not morphable with the start
  layer, no call on a path layer is made.
\<close>

theorem interpolatePreview_never_not_morphable_witness:
  "interpolatePreview exampleMorphable (examplePreviewServices (3 / 10) True) =
     [PathLayerInterpolate (examplePathLayer True) (examplePathLayer True) (examplePathLayer True)
        (3 / 10),
      VectorLayerInterpolate exampleVectorLayer exampleVectorLayer exampleVectorLayer (3 / 10),
      PreviewDraw] \<and>
   interpolate exampleMorphable (\<lambda>a b t. a) (examplePathLayer True) (examplePathLayer True) (3 / 10) =
     Inr (examplePathLayer True) \<and>
   interpolatePreview exampleMorphable (examplePreviewServices (3 / 10) False) =
     [VectorLayerInterpolate exampleVectorLayer exampleVectorLayer exampleVectorLayer (3 / 10),
      PreviewDraw] \<and>
   interpolate exampleMorphable (\<lambda>a b t. a) (examplePathLayer True) (examplePathLayer False) (3 / 10) =
     Inl NotMorphableError"
  using interpolatePreview_never_not_morphable
    [of "examplePathLayer True" "examplePathLayer True" "examplePathLayer True" "3 / 10"
        exampleMorphable "examplePreviewServices (3 / 10) True" "\<lambda>a b t. a"]
  by (simp add: interpolatePreview_def Let_def examplePreviewServices_def exampleMorphable_def
        examplePathLayer_def interpolate_def)

subsection \<open>A hover changes the preview path of the component only\<close>

lemma updateCurrentHoverFn_cases:
  "updateCurrentHoverFn sv hover c = finish (c\<lparr>currentHoverPreviewPath := None\<rparr>) [DrawOverlays] \<or>
   (\<exists>e. updateCurrentHoverFn sv hover c = throw c [] e) \<or>
   (\<exists>h p. shouldDrawLayers sv \<and> hover = Some h \<and> activePath sv = Inr (Some p) \<and>
      updateCurrentHoverFn sv hover c =
        finish (c\<lparr>currentHoverPreviewPath := hoverPreviewPath (mutate p) h\<rparr>)
          [Mutate p, DrawOverlays])"
  by (auto simp: updateCurrentHoverFn_def split: option.splits sum.splits)

lemma updateCurrentHoverFn_frame:
  "UpdateActivePath ct q \<notin> set (effects (updateCurrentHoverFn sv hover c))"
  "SetPathData q \<notin> set (effects (updateCurrentHoverFn sv hover c))"
  "after (updateCurrentHoverFn sv hover c) =
     c\<lparr>currentHoverPreviewPath := currentHoverPreviewPath (after (updateCurrentHoverFn sv hover c))\<rparr>"
  using updateCurrentHoverFn_cases[of sv hover c]
  by (auto simp: finish_def throw_def)

lemma onHoverChanged_cases:
  "onHoverChanged sv hover c = finish c [] \<or>
   (\<exists>hover'. onHoverChanged sv hover c = updateCurrentHoverFn sv hover' c)"
  by (auto simp: onHoverChanged_def split: option.splits)

lemma hoverPreviewPath_mutate:
  "hoverPreviewPath (mutate p) h =
     (case hover_type h of
        HoverSplit \<Rightarrow>
          Some (Built p [SplitCommandInHalf (subIdx (hover_index h)) (cmdIdx (hover_index h))])
      | HoverUnsplit \<Rightarrow>
          Some (Built p [UnsplitCommand (subIdx (hover_index h)) (cmdIdx (hover_index h))])
      | HoverReverse \<Rightarrow> Some (Built p [ReverseSubPath (subIdx (hover_index h))])
      | HoverShiftForward \<Rightarrow> Some (Built p [ShiftSubPathForward (subIdx (hover_index h))])
      | HoverShiftBack \<Rightarrow> Some (Built p [ShiftSubPathBack (subIdx (hover_index h))])
      | HoverCommand \<Rightarrow> None
      | HoverSubPath \<Rightarrow> None)"
  by (simp add: hoverPreviewPath_def Let_def build_def record_op_def mutate_def
           split: hover_type.splits)

text \<open>
  C10. \<^verbatim>\<open>updateCurrentHoverFn\<close>, and the callback on the hover service that calls it,
  never call \<^verbatim>\<open>stateService.updateActivePath\<close> and never assign the path data of a
  layer; of the component they change \<^verbatim>\<open>currentHoverPreviewPath\<close> at most. Where
  layers are drawn and the active path is \<open>p\<close>, a hover of type Split, Unsplit, Reverse,
  ShiftForward or ShiftBack makes that field the path built from \<^verbatim>\<open>p.mutate()\<close> with
  the one operation of the hover, and then the overlays are redrawn.
\<close>

theorem hover_preview_leaves_active_path:
  "(\<forall>ct q. UpdateActivePath ct q \<notin> set (effects (updateCurrentHoverFn sv hover c))) \<and>
   (\<forall>q. SetPathData q \<notin> set (effects (updateCurrentHoverFn sv hover c))) \<and>
   after (updateCurrentHoverFn sv hover c) =
     c\<lparr>currentHoverPreviewPath := currentHoverPreviewPath (after (updateCurrentHoverFn sv hover c))\<rparr> \<and>
   (\<forall>ct q. UpdateActivePath ct q \<notin> set (effects (onHoverChanged sv hover c))) \<and>
   (\<forall>q. SetPathData q \<notin> set (effects (onHoverChanged sv hover c))) \<and>
   after (onHoverChanged sv hover c) =
     c\<lparr>currentHoverPreviewPath := currentHoverPreviewPath (after (onHoverChanged sv hover c))\<rparr> \<and>
   (shouldDrawLayers sv \<and> hover = Some h \<and> activePath sv = Inr (Some p) \<longrightarrow>
      thrown (updateCurrentHoverFn sv hover c) = None \<and>
      effects (updateCurrentHoverFn sv hover c) = [Mutate p, DrawOverlays] \<and>
      currentHoverPreviewPath (after (updateCurrentHoverFn sv hover c)) =
        (case hover_type h of
           HoverSplit \<Rightarrow>
             Some (Built p [SplitCommandInHalf (subIdx (hover_index h)) (cmdIdx (hover_index h))])
         | HoverUnsplit \<Rightarrow>
             Some (Built p [UnsplitCommand (subIdx (hover_index h)) (cmdIdx (hover_index h))])
         | HoverReverse \<Rightarrow> Some (Built p [ReverseSubPath (subIdx (hover_index h))])
         | HoverShiftForward \<Rightarrow> Some (Built p [ShiftSubPathForward (subIdx (hover_index h))])
         | HoverShiftBack \<Rightarrow> Some (Built p [ShiftSubPathBack (subIdx (hover_index h))])
         | HoverCommand \<Rightarrow> None
         | HoverSubPath \<Rightarrow> None))"
proof (intro conjI allI)
  show "UpdateActivePath ct q \<notin> set (effects (updateCurrentHoverFn sv hover c))" for ct q
    by (rule updateCurrentHoverFn_frame)
  show "SetPathData q \<notin> set (effects (updateCurrentHoverFn sv hover c))" for q
    by (rule updateCurrentHoverFn_frame)
  show "after (updateCurrentHoverFn sv hover c) =
     c\<lparr>currentHoverPreviewPath := currentHoverPreviewPath (after (updateCurrentHoverFn sv hover c))\<rparr>"
    by (rule updateCurrentHoverFn_frame)
  show "UpdateActivePath ct q \<notin> set (effects (onHoverChanged sv hover c))" for ct q
    using onHoverChanged_cases[of sv hover c] updateCurrentHoverFn_frame(1)[of ct q sv _ c]
    by (auto simp: finish_def)
  show "SetPathData q \<notin> set (effects (onHoverChanged sv hover c))" for q
    using onHoverChanged_cases[of sv hover c] updateCurrentHoverFn_frame(2)[of q sv _ c]
    by (auto simp: finish_def)
  show "after (onHoverChanged sv hover c) =
     c\<lparr>currentHoverPreviewPath := currentHoverPreviewPath (after (onHoverChanged sv hover c))\<rparr>"
    using onHoverChanged_cases[of sv hover c] updateCurrentHoverFn_frame(3)[of sv _ c]
    by (auto simp: finish_def)
  show "shouldDrawLayers sv \<and> hover = Some h \<and> activePath sv = Inr (Some p) \<longrightarrow>
      thrown (updateCurrentHoverFn sv hover c) = None \<and>
      effects (updateCurrentHoverFn sv hover c) = [Mutate p, DrawOverlays] \<and>
      currentHoverPreviewPath (after (updateCurrentHoverFn sv hover c)) =
        (case hover_type h of
           HoverSplit \<Rightarrow>
             Some (Built p [SplitCommandInHalf (subIdx (hover_index h)) (cmdIdx (hover_index h))])
         | HoverUnsplit \<Rightarrow>
             Some (Built p [UnsplitCommand (subIdx (hover_index h)) (cmdIdx (hover_index h))])
         | HoverReverse \<Rightarrow> Some (Built p [ReverseSubPath (subIdx (hover_index h))])
         | HoverShiftForward \<Rightarrow> Some (Built p [ShiftSubPathForward (subIdx (hover_index h))])
         | HoverShiftBack \<Rightarrow> Some (Built p [ShiftSubPathBack (subIdx (hover_index h))])
         | HoverCommand \<Rightarrow> None
         | HoverSubPath \<Rightarrow> None)"
    by (simp add: updateCurrentHoverFn_def finish_def hoverPreviewPath_mutate)
qed

lemma example_activePath:
  "activePath (exampleServices mode filled) = Inr (Some (PathData 0))"
  by (simp add: activePath_def exampleServices_def truthyId_def getActivePathLayer_def
        examplePathLayer_def)

lemma example_shouldDrawLayers: "shouldDrawLayers (exampleServices mode filled)"
  by (simp add: shouldDrawLayers_def exampleServices_def truthyId_def)

text \<open>
  The theorem at the example inputs and a hover of type Unsplit over command 3 of subpath
  0: the preview path is the active path with that command unsplit, and the calls are
  \<^verbatim>\<open>mutate()\<close> and the redraw of the overlays.
\<close>

theorem hover_preview_leaves_active_path_witness:
  "shouldDrawLayers (exampleServices SelectPoints True) \<and>
   activePath (exampleServices SelectPoints True) = Inr (Some (PathData 0)) \<and>
   updateCurrentHoverFn (exampleServices SelectPoints True)
     (Some \<lparr>hover_type = HoverUnsplit, hover_source = Start,
            hover_index = \<lparr>subIdx = 0, cmdIdx = 3\<rparr>\<rparr>)
     (initialComponent Start) =
   finish ((initialComponent Start)
             \<lparr>currentHoverPreviewPath := Some (Built (PathData 0) [UnsplitCommand 0 3])\<rparr>)
     [Mutate (PathData 0), DrawOverlays]"
  using hover_preview_leaves_active_path
    [of "exampleServices SelectPoints True"
        "Some \<lparr>hover_type = HoverUnsplit, hover_source = Start,
               hover_index = \<lparr>subIdx = 0, cmdIdx = 3\<rparr>\<rparr>"
        "initialComponent Start"
        "\<lparr>hover_type = HoverUnsplit, hover_source = Start,
          hover_index = \<lparr>subIdx = 0, cmdIdx = 3\<rparr>\<rparr>"
        "PathData 0"]
    example_activePath[of SelectPoints True] example_shouldDrawLayers[of SelectPoints True]
  by (simp add: updateCurrentHoverFn_def hoverPreviewPath_mutate)

subsection \<open>When the component is armed\<close>

lemma onMouseDown_armed:
  "shouldPerformActionOnMouseUp (after (onMouseDown ext sv ev c)) \<Longrightarrow>
     shouldPerformActionOnMouseUp c \<or> armingMouseDown ext c sv ev"
  by (auto simp: onMouseDown_def armingMouseDown_def mouseDownHitTestOpts_def Let_def
        finish_def throw_def
      split: if_splits sum.splits option.splits)

lemma onMouseMove_armed:
  "shouldPerformActionOnMouseUp (after (onMouseMove ext sv ev c)) = shouldPerformActionOnMouseUp c"
  by (auto simp: onMouseMove_def Let_def finish_def throw_def
      split: if_splits sum.splits option.splits)

lemma onMouseUpSelectPoints_armed:
  "shouldPerformActionOnMouseUp (after (onMouseUpSelectPoints ext sv ev c)) =
     shouldPerformActionOnMouseUp c"
  by (auto simp: onMouseUpSelectPoints_def Let_def finish_def throw_def
      split: if_splits sum.splits option.splits prod.splits)

lemma onMouseUpSplit_armed:
  "shouldPerformActionOnMouseUp (after (onMouseUpSplit ext sv ev c)) \<Longrightarrow>
     shouldPerformActionOnMouseUp c"
  by (auto simp: onMouseUpSplit_def Let_def finish_def throw_def
      split: if_splits sum.splits option.splits prod.splits)

lemma onMouseUp_armed:
  "shouldPerformActionOnMouseUp (after (onMouseUp ext sv ev c)) \<Longrightarrow>
     shouldPerformActionOnMouseUp c"
  using onMouseUpSplit_armed[of ext sv ev "c\<lparr>lastKnownMouseLocation := Some (mousePoint ev)\<rparr>"]
    onMouseUpSelectPoints_armed[of ext sv ev "c\<lparr>lastKnownMouseLocation := Some (mousePoint ev)\<rparr>"]
  by (auto simp: onMouseUp_def Let_def finish_def split: if_splits)

lemma onMouseLeave_armed:
  "shouldPerformActionOnMouseUp (after (onMouseLeave sv ev c)) \<Longrightarrow>
     shouldPerformActionOnMouseUp c"
  by (auto simp: onMouseLeave_def Let_def finish_def split: if_splits option.splits)

lemma onAppModeChanged_armed:
  "shouldPerformActionOnMouseUp (after (onAppModeChanged c)) \<Longrightarrow> shouldPerformActionOnMouseUp c"
  by (auto simp: onAppModeChanged_def finish_def split: if_splits)

lemma updateCurrentHoverFn_armed:
  "shouldPerformActionOnMouseUp (after (updateCurrentHoverFn sv hover c)) =
     shouldPerformActionOnMouseUp c"
  by (subst updateCurrentHoverFn_frame(3)) simp

lemma onHoverChanged_armed:
  "shouldPerformActionOnMouseUp (after (onHoverChanged sv hover c)) \<Longrightarrow>
     shouldPerformActionOnMouseUp c"
  using onHoverChanged_cases[of sv hover c]
  by (auto simp: finish_def updateCurrentHoverFn_armed)

lemma step_armed:
  assumes "shouldPerformActionOnMouseUp (after (step ext e c))"
  shows "shouldPerformActionOnMouseUp c \<or> (\<exists>sv ev. e = MouseDown sv ev \<and> armingMouseDown ext c sv ev)"
proof (cases e)
  case (MouseDown sv ev)
  with assms onMouseDown_armed[of ext sv ev c] show ?thesis by auto
next
  case (MouseMove sv ev)
  with assms onMouseMove_armed[of ext sv ev c] show ?thesis by auto
next
  case (MouseUp sv ev)
  with assms onMouseUp_armed[of ext sv ev c] show ?thesis by auto
next
  case (MouseLeave sv ev)
  with assms onMouseLeave_armed[of sv ev c] show ?thesis by auto
next
  case AppModeChanged
  with assms onAppModeChanged_armed[of c] show ?thesis by auto
next
  case (HoverChanged sv hover)
  with assms onHoverChanged_armed[of sv hover c] show ?thesis by auto
qed

lemma run_append: "run ext (es @ es') c = run ext es' (run ext es c)"
  by (induction es arbitrary: c) simp_all

lemma run_snoc: "run ext (es @ [e]) c = after (step ext e (run ext es c))"
  by (simp add: run_append)

text \<open>
  From a component that is not armed, a run of events leaves the component armed only if
  it holds an arming mouse down after which the component stayed armed.
\<close>

lemma armed_by_mouse_down:
  assumes "shouldPerformActionOnMouseUp (run ext evs c)" and "\<not> shouldPerformActionOnMouseUp c"
  shows "\<exists>pre sv ev post.
           evs = pre @ MouseDown sv ev # post \<and> armingMouseDown ext (run ext pre c) sv ev \<and>
           (\<forall>k\<le>length post.
              shouldPerformActionOnMouseUp (run ext (pre @ MouseDown sv ev # take k post) c))"
  using assms
proof (induction evs rule: rev_induct)
  case Nil
  then show ?case by simp
next
  case (snoc e es)
  from snoc.prems(1) have armed: "shouldPerformActionOnMouseUp (after (step ext e (run ext es c)))"
    by (simp add: run_snoc)
  from step_armed[OF armed] show ?case
  proof
    assume before: "shouldPerformActionOnMouseUp (run ext es c)"
    from snoc.IH[OF before snoc.prems(2)] obtain pre sv ev post where
      es: "es = pre @ MouseDown sv ev # post"
      and arm: "armingMouseDown ext (run ext pre c) sv ev"
      and stay: "\<forall>k\<le>length post.
              shouldPerformActionOnMouseUp (run ext (pre @ MouseDown sv ev # take k post) c)"
      by blast
    have "shouldPerformActionOnMouseUp (run ext (pre @ MouseDown sv ev # take k (post @ [e])) c)"
      if "k \<le> length (post @ [e])" for k
    proof (cases "k \<le> length post")
      case True
      with stay show ?thesis by simp
    next
      case False
      with that have "take k (post @ [e]) = post @ [e]" by simp
      with snoc.prems(1) es show ?thesis by simp
    qed
    with es arm show ?thesis
      by (intro exI[of _ pre] exI[of _ sv] exI[of _ ev] exI[of _ "post @ [e]"]) simp
  next
    assume "\<exists>sv ev. e = MouseDown sv ev \<and> armingMouseDown ext (run ext es c) sv ev"
    then obtain sv ev where e: "e = MouseDown sv ev"
      and arm: "armingMouseDown ext (run ext es c) sv ev" by blast
    from snoc.prems(1) e arm show ?thesis
      by (intro exI[of _ es] exI[of _ sv] exI[of _ ev] exI[of _ "[]"]) simp
  qed
qed

lemma onMouseUp_split_effects:
  assumes "appMode sv = AddPoints \<or> appMode sv = SplitSubPaths"
    and "Mutate p \<in> set (effects (onMouseUp ext sv ev c)) \<or>
         UpdateActivePath ct p \<in> set (effects (onMouseUp ext sv ev c))"
  shows "shouldProcessMouseEvents c sv \<and> shouldPerformActionOnMouseUp c \<and>
         (\<exists>proj. calculateProjectionOntoPath ext sv (mousePoint ev) = Inr (Some proj) \<and>
                 proj_d (projection proj) < MIN_SNAP_THRESHOLD)"
  using assms
  by (auto simp: onMouseUp_def onMouseUpSplit_def Let_def finish_def throw_def
      split: if_splits sum.splits option.splits prod.splits)

text \<open>
  C8. In the modes AddPoints and SplitSubPaths, on a component that has handled any list
  of events since it was created, a mouse up takes a mutator of the active path or
  updates the active path of the state service only if the component is armed and the
  projection computed again at the mouse up is closer than \<open>MIN_SNAP_THRESHOLD\<close>; and
  the component is armed only by a mouse down in one of the two modes whose last segment
  hit projected closer than \<open>MIN_SNAP_THRESHOLD\<close> and after which it stayed armed.
  In every other case the mouse up takes no mutator and does not update the state
  service.
\<close>

theorem split_only_when_armed_and_in_range:
  assumes "appMode sv = AddPoints \<or> appMode sv = SplitSubPaths"
  shows "((\<exists>p. Mutate p \<in> set (effects (onMouseUp ext sv ev (run ext evs (initialComponent ct))))) \<or>
          (\<exists>ct' p. UpdateActivePath ct' p \<in>
                      set (effects (onMouseUp ext sv ev (run ext evs (initialComponent ct))))))
         \<longrightarrow>
         MIN_SNAP_THRESHOLD = 1.5 \<and>
         (\<exists>proj. calculateProjectionOntoPath ext sv (mousePoint ev) = Inr (Some proj) \<and>
                 proj_d (projection proj) < MIN_SNAP_THRESHOLD) \<and>
         (\<exists>pre svd evd post.
            evs = pre @ MouseDown svd evd # post \<and>
            armingMouseDown ext (run ext pre (initialComponent ct)) svd evd \<and>
            (\<forall>k\<le>length post.
               shouldPerformActionOnMouseUp
                 (run ext (pre @ MouseDown svd evd # take k post) (initialComponent ct))))"
proof
  let ?c = "run ext evs (initialComponent ct)"
  assume "(\<exists>p. Mutate p \<in> set (effects (onMouseUp ext sv ev ?c))) \<or>
          (\<exists>ct' p. UpdateActivePath ct' p \<in> set (effects (onMouseUp ext sv ev ?c)))"
  then obtain ct' p where
    "Mutate p \<in> set (effects (onMouseUp ext sv ev ?c)) \<or>
     UpdateActivePath ct' p \<in> set (effects (onMouseUp ext sv ev ?c))"
    by blast
  from onMouseUp_split_effects[OF assms this]
  have armed: "shouldPerformActionOnMouseUp ?c"
    and range: "\<exists>proj. calculateProjectionOntoPath ext sv (mousePoint ev) = Inr (Some proj) \<and>
                 proj_d (projection proj) < MIN_SNAP_THRESHOLD"
    by blast+
  have "\<not> shouldPerformActionOnMouseUp (initialComponent ct)"
    by (simp add: initialComponent_def)
  from armed_by_mouse_down[OF armed this] range
  show "MIN_SNAP_THRESHOLD = 1.5 \<and>
         (\<exists>proj. calculateProjectionOntoPath ext sv (mousePoint ev) = Inr (Some proj) \<and>
                 proj_d (projection proj) < MIN_SNAP_THRESHOLD) \<and>
         (\<exists>pre svd evd post.
            evs = pre @ MouseDown svd evd # post \<and>
            armingMouseDown ext (run ext pre (initialComponent ct)) svd evd \<and>
            (\<forall>k\<le>length post.
               shouldPerformActionOnMouseUp
                 (run ext (pre @ MouseDown svd evd # take k post) (initialComponent ct))))"
    by (simp add: MIN_SNAP_THRESHOLD_def)
qed

lemma example_mouse_down_arms:
  "onMouseDown exampleCollaborators (exampleServices AddPoints filled) (exampleEvent a b)
     (initialComponent Start) =
   finish ((initialComponent Start)
             \<lparr>lastKnownMouseLocation := Some (a, b),
              shouldPerformActionOnMouseUp := \<bar>b\<bar> < 3 / 2\<rparr>)
     [ShowRuler, Draw]"
  by (simp add: onMouseDown_splitting_modes[OF example_shouldProcess] example_appMode
        exampleEvent_def example_performHitTest lastOf_def exampleProjection_def
        MIN_SNAP_THRESHOLD_def)

lemma example_mouse_up_splits:
  assumes "shouldPerformActionOnMouseUp c" and "canvasType c = Start" and "\<bar>b\<bar> < 3 / 2"
  shows "effects (onMouseUp exampleCollaborators (exampleServices AddPoints filled)
                    (exampleEvent a b) c) =
           [ShowRuler, Mutate (PathData 0),
            UpdateActivePath Start (Built (PathData 0) [SplitCommand 0 (nat \<lfloor>a - 1\<rfloor>) (1 / 2)]),
            Draw]"
proof -
  have p: "shouldProcessMouseEvents c (exampleServices AddPoints filled)"
    using assms(2)
    by (simp add: shouldProcessMouseEvents_def exampleServices_def truthyId_def)
  have proj: "calculateProjectionOntoPath exampleCollaborators (exampleServices AddPoints filled)
                (mousePoint (exampleEvent a b)) = Inr (Some (exampleProjection (PathData 0) (a - 1, b)))"
    using example_calculateProjection[of AddPoints filled a b] by (simp add: exampleEvent_def)
  have hit: "performHitTest exampleCollaborators (exampleServices AddPoints filled)
               (mousePoint (exampleEvent a b)) None =
             Inr \<lparr>isHit = True, isEndPointHit = False, isSegmentHit = True, endPointHits = [],
                  segmentHits = [exampleProjection (PathData 0) (a - 1, b)], shapeHits = []\<rparr>"
    using example_performHitTest[of AddPoints filled a b None] by (simp add: exampleEvent_def)
  have d: "proj_d (projection (exampleProjection (PathData 0) (a - 1, b))) < MIN_SNAP_THRESHOLD"
    using assms(3) by (simp add: exampleProjection_def MIN_SNAP_THRESHOLD_def)
  from onMouseUp_in_range[OF p _ assms(1) hit proj d example_activeLayer[of AddPoints filled]]
  show ?thesis
    by (simp add: example_appMode finish_def splitOnMouseUp_def build_def record_op_def
          mutate_def examplePathLayer_def assms(2))
       (simp add: exampleProjection_def)
qed

text \<open>
  The theorem at the example inputs: a mouse down at \<open>(5, 1)\<close> in the mode AddPoints
  arms the component, and the mouse up at the same point commits a split of command 4.
\<close>

theorem split_only_when_armed_and_in_range_witness:
  "effects (onMouseUp exampleCollaborators (exampleServices AddPoints True) (exampleEvent 5 1)
              (run exampleCollaborators
                 [MouseDown (exampleServices AddPoints True) (exampleEvent 5 1)]
                 (initialComponent Start))) =
     [ShowRuler, Mutate (PathData 0),
      UpdateActivePath Start (Built (PathData 0) [SplitCommand 0 4 (1 / 2)]), Draw] \<and>
   (\<exists>proj. calculateProjectionOntoPath exampleCollaborators (exampleServices AddPoints True)
             (mousePoint (exampleEvent 5 1)) = Inr (Some proj) \<and>
           proj_d (projection proj) < MIN_SNAP_THRESHOLD) \<and>
   armingMouseDown exampleCollaborators (initialComponent Start)
     (exampleServices AddPoints True) (exampleEvent 5 1)"
proof -
  have ran: "run exampleCollaborators
               [MouseDown (exampleServices AddPoints True) (exampleEvent 5 1)]
               (initialComponent Start) =
             (initialComponent Start)
               \<lparr>lastKnownMouseLocation := Some (5, 1), shouldPerformActionOnMouseUp := True\<rparr>"
    by (simp add: example_mouse_down_arms finish_def)
  have eff: "effects (onMouseUp exampleCollaborators (exampleServices AddPoints True)
              (exampleEvent 5 1)
              (run exampleCollaborators
                 [MouseDown (exampleServices AddPoints True) (exampleEvent 5 1)]
                 (initialComponent Start))) =
     [ShowRuler, Mutate (PathData 0),
      UpdateActivePath Start (Built (PathData 0) [SplitCommand 0 4 (1 / 2)]), Draw]"
    using example_mouse_up_splits
      [of "(initialComponent Start)
             \<lparr>lastKnownMouseLocation := Some (5, 1), shouldPerformActionOnMouseUp := True\<rparr>"
          1 True 5]
    unfolding ran by (simp add: initialComponent_def)
  from split_only_when_armed_and_in_range
    [of "exampleServices AddPoints True" exampleCollaborators "exampleEvent 5 1"
        "[MouseDown (exampleServices AddPoints True) (exampleEvent 5 1)]" Start]
  have "(\<exists>proj. calculateProjectionOntoPath exampleCollaborators (exampleServices AddPoints True)
             (mousePoint (exampleEvent 5 1)) = Inr (Some proj) \<and>
           proj_d (projection proj) < MIN_SNAP_THRESHOLD) \<and>
        (\<exists>pre svd evd post.
            [MouseDown (exampleServices AddPoints True) (exampleEvent 5 1)] =
              pre @ MouseDown svd evd # post \<and>
            armingMouseDown exampleCollaborators
              (run exampleCollaborators pre (initialComponent Start)) svd evd)"
    unfolding eff by (simp add: example_appMode) blast
  then obtain pre svd evd post where
    "[MouseDown (exampleServices AddPoints True) (exampleEvent 5 1)] = pre @ MouseDown svd evd # post"
    "armingMouseDown exampleCollaborators (run exampleCollaborators pre (initialComponent Start))
       svd evd"
    and range: "\<exists>proj. calculateProjectionOntoPath exampleCollaborators
             (exampleServices AddPoints True) (mousePoint (exampleEvent 5 1)) = Inr (Some proj) \<and>
           proj_d (projection proj) < MIN_SNAP_THRESHOLD"
    by blast
  then have "armingMouseDown exampleCollaborators (initialComponent Start)
     (exampleServices AddPoints True) (exampleEvent 5 1)"
    by (cases pre) auto
  with eff range show ?thesis by blast
qed

subsection \<open>Leaving the canvas\<close>

lemma onMouseLeave_processed:
  assumes "shouldProcessMouseEvents c sv" and "appMode sv = AddPoints \<or> appMode sv = SplitSubPaths"
  shows "onMouseLeave sv ev c =
           finish
             (c\<lparr>lastKnownMouseLocation := Some (mousePoint ev),
                shouldPerformActionOnMouseUp := False,
                initialFilledSubPathProjOntoPath := None\<rparr>)
             [HideMouse, Draw]"
  using assms by (auto simp: onMouseLeave_def Let_def)

text \<open>
  C9, as the code has it. When the component processes mouse events (the canvas is not
  the preview and there is an active path id), a mouse leave in the mode AddPoints or
  SplitSubPaths clears \<^verbatim>\<open>shouldPerformActionOnMouseUp\<close> and
  \<^verbatim>\<open>initialFilledSubPathProjOntoPath\<close>. After it, whatever events follow, as long as
  none of them is an arming mouse down, a mouse up in one of the two modes takes no
  mutator and does not update the active path.
\<close>

theorem mouse_leave_cancels_pending_split:
  assumes "shouldProcessMouseEvents c sv"
    and "appMode sv = AddPoints \<or> appMode sv = SplitSubPaths"
  shows "\<not> shouldPerformActionOnMouseUp (after (onMouseLeave sv ev c)) \<and>
         initialFilledSubPathProjOntoPath (after (onMouseLeave sv ev c)) = None \<and>
         thrown (onMouseLeave sv ev c) = None \<and>
         (\<forall>evs svu evu.
            (appMode svu = AddPoints \<or> appMode svu = SplitSubPaths) \<and>
            (\<forall>pre svd evd post.
               evs = pre @ MouseDown svd evd # post \<longrightarrow>
               \<not> armingMouseDown ext (run ext pre (after (onMouseLeave sv ev c))) svd evd)
            \<longrightarrow>
            (\<forall>p. Mutate p \<notin>
                   set (effects (onMouseUp ext svu evu (run ext evs (after (onMouseLeave sv ev c)))))) \<and>
            (\<forall>ct p. UpdateActivePath ct p \<notin>
                      set (effects (onMouseUp ext svu evu
                                      (run ext evs (after (onMouseLeave sv ev c)))))))"
proof -
  let ?c = "after (onMouseLeave sv ev c)"
  have cleared: "\<not> shouldPerformActionOnMouseUp ?c"
    and initial: "initialFilledSubPathProjOntoPath ?c = None"
    and ok: "thrown (onMouseLeave sv ev c) = None"
    by (simp_all add: onMouseLeave_processed[OF assms] finish_def)
  have later: "Mutate p \<notin> set (effects (onMouseUp ext svu evu (run ext evs ?c))) \<and>
               UpdateActivePath ct p \<notin> set (effects (onMouseUp ext svu evu (run ext evs ?c)))"
    if mode: "appMode svu = AddPoints \<or> appMode svu = SplitSubPaths"
      and none: "\<forall>pre svd evd post.
               evs = pre @ MouseDown svd evd # post \<longrightarrow>
               \<not> armingMouseDown ext (run ext pre ?c) svd evd"
    for evs svu evu p ct
  proof -
    have "\<not> shouldPerformActionOnMouseUp (run ext evs ?c)"
      using armed_by_mouse_down[of ext evs ?c, OF _ cleared] none by blast
    with onMouseUp_split_effects[OF mode, of p ext evu "run ext evs ?c" ct]
    show ?thesis by blast
  qed
  show ?thesis
    using cleared initial ok later by blast
qed

lemma example_shouldProcess_any:
  "canvasType c = Start \<Longrightarrow> shouldProcessMouseEvents c (exampleServices mode filled)"
  by (simp add: shouldProcessMouseEvents_def exampleServices_def truthyId_def)

text \<open>
  The theorem at the example inputs: the component, armed by a mouse down at \<open>(5, 1)\<close>,
  handles a mouse leave and then a mouse up at \<open>(5, 1)\<close>; the mouse up makes the hit
  test and the redraw and nothing else.
\<close>

theorem mouse_leave_cancels_pending_split_witness:
  "shouldPerformActionOnMouseUp
     (run exampleCollaborators [MouseDown (exampleServices AddPoints True) (exampleEvent 5 1)]
        (initialComponent Start)) \<and>
   \<not> shouldPerformActionOnMouseUp
       (run exampleCollaborators
          [MouseDown (exampleServices AddPoints True) (exampleEvent 5 1),
           MouseLeave (exampleServices AddPoints True) (exampleEvent 9 9)]
          (initialComponent Start)) \<and>
   (\<forall>p. Mutate p \<notin>
      set (effects (onMouseUp exampleCollaborators (exampleServices AddPoints True)
                      (exampleEvent 5 1)
                      (run exampleCollaborators
                         [MouseDown (exampleServices AddPoints True) (exampleEvent 5 1),
                          MouseLeave (exampleServices AddPoints True) (exampleEvent 9 9)]
                         (initialComponent Start))))) \<and>
   (\<forall>ct p. UpdateActivePath ct p \<notin>
      set (effects (onMouseUp exampleCollaborators (exampleServices AddPoints True)
                      (exampleEvent 5 1)
                      (run exampleCollaborators
                         [MouseDown (exampleServices AddPoints True) (exampleEvent 5 1),
                          MouseLeave (exampleServices AddPoints True) (exampleEvent 9 9)]
                         (initialComponent Start)))))"
proof -
  let ?armed = "(initialComponent Start)
                  \<lparr>lastKnownMouseLocation := Some (5, 1), shouldPerformActionOnMouseUp := True\<rparr>"
  have ran: "run exampleCollaborators
               [MouseDown (exampleServices AddPoints True) (exampleEvent 5 1)]
               (initialComponent Start) = ?armed"
    by (simp add: example_mouse_down_arms finish_def)
  have ran2: "run exampleCollaborators
          [MouseDown (exampleServices AddPoints True) (exampleEvent 5 1),
           MouseLeave (exampleServices AddPoints True) (exampleEvent 9 9)]
          (initialComponent Start) =
        run exampleCollaborators []
          (after (onMouseLeave (exampleServices AddPoints True) (exampleEvent 9 9) ?armed))"
    by (simp add: example_mouse_down_arms finish_def)
  have p: "shouldProcessMouseEvents ?armed (exampleServices AddPoints True)"
    by (rule example_shouldProcess_any) (simp add: initialComponent_def)
  have mode: "appMode (exampleServices AddPoints True) = AddPoints \<or>
              appMode (exampleServices AddPoints True) = SplitSubPaths"
    by (simp add: example_appMode)
  note th = mouse_leave_cancels_pending_split
    [OF p mode, of "exampleEvent 9 9" exampleCollaborators]
  from th have cleared: "\<not> shouldPerformActionOnMouseUp
           (after (onMouseLeave (exampleServices AddPoints True) (exampleEvent 9 9) ?armed))"
    by (rule conjunct1)
  note later = th[THEN conjunct2, THEN conjunct2, THEN conjunct2]
  have "(\<forall>p. Mutate p \<notin>
           set (effects (onMouseUp exampleCollaborators (exampleServices AddPoints True)
                  (exampleEvent 5 1)
                  (run exampleCollaborators []
                     (after (onMouseLeave (exampleServices AddPoints True) (exampleEvent 9 9)
                               ?armed)))))) \<and>
        (\<forall>ct p. UpdateActivePath ct p \<notin>
           set (effects (onMouseUp exampleCollaborators (exampleServices AddPoints True)
                  (exampleEvent 5 1)
                  (run exampleCollaborators []
                     (after (onMouseLeave (exampleServices AddPoints True) (exampleEvent 9 9)
                               ?armed))))))"
    using later[THEN spec, of "[]", THEN spec, of "exampleServices AddPoints True",
                THEN spec, of "exampleEvent 5 1"] mode
    by simp
  with cleared show ?thesis
    unfolding ran2 ran by simp
qed

text \<open>
  C9 for every mouse leave in the two modes does not hold, since a mouse leave that is
  not processed clears nothing: the component
  is armed by a mouse down at \<open>(5, 1)\<close>; the mouse leaves in the mode AddPoints while
  the state service has no active path id, so the handler returns at line 1107 and the
  component stays armed; the mouse up at \<open>(5, 1)\<close>, with the active path back, commits
  a split of command 4 though no mouse down came in between.
\<close>

theorem mouse_leave_counterexample:
  "appMode ((exampleServices AddPoints True)\<lparr>activePathId := None\<rparr>) = AddPoints \<and>
   shouldPerformActionOnMouseUp
     (run exampleCollaborators
        [MouseDown (exampleServices AddPoints True) (exampleEvent 5 1),
         MouseLeave ((exampleServices AddPoints True)\<lparr>activePathId := None\<rparr>) (exampleEvent 9 9)]
        (initialComponent Start)) \<and>
   effects (onMouseUp exampleCollaborators (exampleServices AddPoints True) (exampleEvent 5 1)
              (run exampleCollaborators
                 [MouseDown (exampleServices AddPoints True) (exampleEvent 5 1),
                  MouseLeave ((exampleServices AddPoints True)\<lparr>activePathId := None\<rparr>)
                    (exampleEvent 9 9)]
                 (initialComponent Start))) =
     [ShowRuler, Mutate (PathData 0),
      UpdateActivePath Start (Built (PathData 0) [SplitCommand 0 4 (1 / 2)]), Draw]"
proof -
  let ?armed = "(initialComponent Start)
                  \<lparr>lastKnownMouseLocation := Some (5, 1), shouldPerformActionOnMouseUp := True\<rparr>"
  have leave: "onMouseLeave ((exampleServices AddPoints True)\<lparr>activePathId := None\<rparr>)
                 (exampleEvent 9 9) ?armed = finish ?armed [HideMouse]"
    by (simp add: onMouseLeave_def shouldProcessMouseEvents_def truthyId_def)
  have ran: "run exampleCollaborators
        [MouseDown (exampleServices AddPoints True) (exampleEvent 5 1),
         MouseLeave ((exampleServices AddPoints True)\<lparr>activePathId := None\<rparr>) (exampleEvent 9 9)]
        (initialComponent Start) = ?armed"
    by (simp add: example_mouse_down_arms finish_def leave[unfolded finish_def])
  have eff: "effects (onMouseUp exampleCollaborators (exampleServices AddPoints True)
               (exampleEvent 5 1) ?armed) =
     [ShowRuler, Mutate (PathData 0),
      UpdateActivePath Start (Built (PathData 0) [SplitCommand 0 4 (1 / 2)]), Draw]"
    using example_mouse_up_splits[of ?armed 1 True 5] by (simp add: initialComponent_def)
  show ?thesis
    unfolding ran using eff by (simp add: exampleServices_def)
qed

end
